theory Spec2Isabelle
  imports Main "HOL-Library.Sublist" "HOL-Library.AList" "HOL-Library.Monad_Syntax"
begin

section \<open>The monitoring script, embedded\<close>

text \<open>
  The development follows \<^verbatim>\<open>monitoring.js\<close>: the probe \<^verbatim>\<open>checkService\<close>, the container
  inspector \<^verbatim>\<open>checkContainers\<close>, the alert engine \<^verbatim>\<open>generateAlerts\<close>, the metrics
  file that is read at start-up and written at the end of each cycle, and the cycle
  \<^verbatim>\<open>runCheck\<close> itself.

  What the script takes from its surroundings is an argument of the model: which of the
  three callbacks of a probe runs first, what \<^verbatim>\<open>docker ps\<close> prints, what the clock
  reads, and what the metrics file holds.
\<close>

subsection \<open>Strings and numbers\<close>

text \<open>
  A JavaScript string is a \<^typ>\<open>string\<close>; the numbers of the script (status codes,
  milliseconds, days) are integers far below \<open>2\<^sup>5\<^sup>3\<close>, where the arithmetic of
  JavaScript numbers is exact, and are modelled as \<^typ>\<open>int\<close>. A template literal prints
  such an integer in decimal, with a leading minus sign when it is negative.
\<close>

fun digits :: "nat \<Rightarrow> string" where
  "digits n =
     (if n < 10 then [''0123456789'' ! n]
      else digits (n div 10) @ [''0123456789'' ! (n mod 10)])"

declare digits.simps [simp del]

definition numberToString :: "int \<Rightarrow> string" where
  "numberToString i = (if i < 0 then CHR ''-'' # digits (nat (- i)) else digits (nat i))"

text \<open>\<^verbatim>\<open>s.startsWith(p)\<close> and \<^verbatim>\<open>s.includes(p)\<close>.\<close>

definition startsWith :: "string \<Rightarrow> string \<Rightarrow> bool" where
  "startsWith s p = prefix p s"

fun includes_str :: "string \<Rightarrow> string \<Rightarrow> bool" where
  "includes_str [] p = (p = [])"
| "includes_str (c # cs) p = (prefix p (c # cs) \<or> includes_str cs p)"

text \<open>
  \<^verbatim>\<open>s.trim()\<close> removes white space and line terminators from both ends; on the
  ASCII output of \<^verbatim>\<open>docker ps\<close> these are the six characters below.
\<close>

definition isWhiteSpace :: "char \<Rightarrow> bool" where
  "isWhiteSpace c = (c \<in> set [CHR '' '', CHR 0x09, CHR 0x0A, CHR 0x0B, CHR 0x0C, CHR 0x0D])"

definition trim :: "string \<Rightarrow> string" where
  "trim s = rev (dropWhile isWhiteSpace (rev (dropWhile isWhiteSpace s)))"

text \<open>
  \<^verbatim>\<open>s.split(sep)\<close>: the pieces of \<open>s\<close> between the occurrences of \<open>sep\<close>, found from
  the left and not overlapping. The empty string splits into one empty piece; an empty
  separator splits a string into its characters.
\<close>

function split :: "string \<Rightarrow> string \<Rightarrow> string list" where
  "split s sep =
     (if sep = [] then map (\<lambda>c. [c]) s
      else if s = [] then [[]]
      else if prefix sep s then [] # split (drop (length sep) s) sep
      else (case split (tl s) sep of
              [] \<Rightarrow> [[hd s]]
            | piece # pieces \<Rightarrow> (hd s # piece) # pieces))"
  by pat_completeness auto
termination
  by (relation "measure (\<lambda>(s, sep). length s)") (auto simp: neq_Nil_conv)

declare split.simps [simp del]

text \<open>
  A \<^verbatim>\<open>Date\<close> object, seen through the two observations the script makes of one: its
  value in milliseconds (read when two dates are subtracted, and by \<^verbatim>\<open>Date.now()\<close>)
  and its ISO-8601 rendering.
\<close>

record Date =
  getTime :: int
  toISOString :: string

text \<open>
  A property of an object that the script leaves out on some paths and sets to
  \<^verbatim>\<open>null\<close> on others.
\<close>

datatype 'a field = Missing | Null | Present 'a

subsection \<open>Configuration\<close>

record ServiceTarget =
  name :: string
  url :: string
  expectedStatus :: int
  timeout :: int

record Thresholds =
  responseTime :: int
  certExpirationDays :: int

record Config =
  services :: "ServiceTarget list"
  thresholds :: Thresholds
  metricsFile :: string
  checkInterval :: int

definition config :: Config where
  "config =
     \<lparr>services =
        [\<lparr>name = ''Traefik Dashboard'',
          url = ''https://traefik.propertyapp.duckdns.org/dashboard/'',
          expectedStatus = 200, timeout = 5000\<rparr>,
         \<lparr>name = ''NASA App'',
          url = ''https://majortomtogroundcontrol.duckdns.org'',
          expectedStatus = 200, timeout = 5000\<rparr>,
         \<lparr>name = ''Property App Frontend'',
          url = ''https://propertyapp.duckdns.org'',
          expectedStatus = 200, timeout = 5000\<rparr>,
         \<lparr>name = ''Property App API'',
          url = ''https://propertyapp.duckdns.org/api/repair/users'',
          expectedStatus = 200, timeout = 5000\<rparr>],
      thresholds = \<lparr>responseTime = 1500, certExpirationDays = 14\<rparr>,
      metricsFile = ''./monitoring_metrics.json'',
      checkInterval = 300000\<rparr>"

subsection \<open>The probe: \<^verbatim>\<open>checkService\<close>\<close>

datatype Status = HEALTHY | UNHEALTHY | TIMEOUT | ERROR

fun statusString :: "Status \<Rightarrow> string" where
  "statusString HEALTHY = ''HEALTHY''"
| "statusString UNHEALTHY = ''UNHEALTHY''"
| "statusString TIMEOUT = ''TIMEOUT''"
| "statusString ERROR = ''ERROR''"

record CertificateInfo =
  issuer :: string
  expirationDate :: string
  daysToExpiration :: int

text \<open>
  The object a probe resolves with. The three object literals of \<^verbatim>\<open>checkService\<close>
  set different properties; one that a literal does not set is \<open>None\<close> here
  (\<^verbatim>\<open>undefined\<close> when read). The \<^verbatim>\<open>certificate\<close> of a response is \<^verbatim>\<open>null\<close> or an
  object, and the other two literals have none.
\<close>

record ProbeResult =
  name :: string
  url :: string
  status :: Status
  statusCode :: "int option"
  responseTime :: "int option"
  certificate :: "CertificateInfo field"
  error :: "string option"
  timestamp :: "string option"

text \<open>
  What the script reads of the peer certificate: \<^verbatim>\<open>cert.issuer?.CN\<close>, and
  \<^verbatim>\<open>new Date(cert.valid_to)\<close>. And what it reads of a response: the status code and
  the peer certificate, which is \<open>None\<close> when the socket has none to give (no
  socket, no \<^verbatim>\<open>getPeerCertificate\<close>, an empty certificate or one without
  \<^verbatim>\<open>valid_to\<close>).
\<close>

record PeerCertificate =
  issuerCN :: "string option"
  valid_to :: Date

record IncomingMessage =
  statusCode :: int
  peerCertificate :: "PeerCertificate option"

text \<open>
  A probe arms a timer, sends the request and registers two callbacks (the URLs of the
  configuration are well formed, so that sending does not throw). Each of the three
  callbacks resolves the promise, and a promise keeps the first value it is resolved
  with: the result of the probe is decided by the callback that runs first, and the
  timeout of the target matters only through that. The callbacks of the request read the
  clock: the \<^typ>\<open>Date\<close> they carry stands for every reading of one callback
  (\<^verbatim>\<open>Date.now()\<close> and each \<^verbatim>\<open>new Date()\<close>), and \<^verbatim>\<open>startTime\<close> is the reading of
  \<^verbatim>\<open>Date.now()\<close> when the probe started.
\<close>

datatype Callback =
  TimerFired
| Response IncomingMessage Date
| RequestError string Date

text \<open>
  \<^verbatim>\<open>Math.ceil(a / b)\<close> on integers, for a positive \<open>b\<close>. (JavaScript gives \<^verbatim>\<open>-0\<close>
  where this gives \<open>0\<close>; the two print alike and compare alike.)
\<close>

definition ceilDiv :: "int \<Rightarrow> int \<Rightarrow> int" where
  "ceilDiv a b = - ((- a) div b)"

definition certInfoOf :: "ServiceTarget \<Rightarrow> IncomingMessage \<Rightarrow> Date \<Rightarrow> CertificateInfo field" where
  "certInfoOf service res now =
     (if startsWith (ServiceTarget.url service) ''https'' then
        (case peerCertificate res of
           None \<Rightarrow> Null
         | Some cert \<Rightarrow>
             Present
               \<lparr>issuer =
                  (case issuerCN cert of
                     None \<Rightarrow> ''Unknown''
                   | Some cn \<Rightarrow> if cn = [] then ''Unknown'' else cn),
                expirationDate = toISOString (valid_to cert),
                daysToExpiration =
                  ceilDiv (getTime (valid_to cert) - getTime now) (1000 * 60 * 60 * 24)\<rparr>)
      else Null)"

definition checkService :: "Config \<Rightarrow> ServiceTarget \<Rightarrow> int \<Rightarrow> Callback \<Rightarrow> ProbeResult" where
  "checkService cfg service startTime first =
     (case first of
        TimerFired \<Rightarrow>
          \<lparr>name = ServiceTarget.name service,
           url = ServiceTarget.url service,
           status = TIMEOUT,
           statusCode = None,
           responseTime = Some (Thresholds.responseTime (thresholds cfg) + 1),
           certificate = Missing,
           error = Some ''Request timed out'',
           timestamp = None\<rparr>
      | Response res now \<Rightarrow>
          \<lparr>name = ServiceTarget.name service,
           url = ServiceTarget.url service,
           status =
             (if IncomingMessage.statusCode res = expectedStatus service then HEALTHY
              else UNHEALTHY),
           statusCode = Some (IncomingMessage.statusCode res),
           responseTime = Some (getTime now - startTime),
           certificate = certInfoOf service res now,
           error = None,
           timestamp = Some (toISOString now)\<rparr>
      | RequestError msg now \<Rightarrow>
          \<lparr>name = ServiceTarget.name service,
           url = ServiceTarget.url service,
           status = ERROR,
           statusCode = None,
           responseTime = None,
           certificate = Missing,
           error = Some msg,
           timestamp = Some (toISOString now)\<rparr>)"

subsection \<open>The container inspector: \<^verbatim>\<open>checkContainers\<close>\<close>

text \<open>
  \<^verbatim>\<open>exec\<close> calls back with an error, or with what the command printed. The inspector
  resolves with an object that has an \<^verbatim>\<open>error\<close> or a \<^verbatim>\<open>containers\<close> property, never
  both. The \<^verbatim>\<open>containers\<close> object keeps its keys in the order they were first set
  (JavaScript enumerates keys that read as array indices before the others; nothing
  below depends on the order). The status of a line with no \<^verbatim>\<open>': '\<close> in it is
  \<^verbatim>\<open>undefined\<close>, \<open>None\<close> here.
\<close>

datatype ExecResult = ExecError string | ExecOutput string

datatype ContainerStatus =
  InspectionError string
| Containers "(string \<times> string option) list"

fun containers :: "ContainerStatus \<Rightarrow> (string \<times> string option) list option" where
  "containers (InspectionError msg) = None"
| "containers (Containers cs) = Some cs"

text \<open>
  The body of the loop over the lines: \<^verbatim>\<open>const [name, status] = line.split(': ')\<close>
  takes the first two pieces, and a piece that is not there is \<^verbatim>\<open>undefined\<close> (as a
  key, the string \<^verbatim>\<open>undefined\<close>).
\<close>

definition addLine :: "string \<Rightarrow> (string \<times> string option) list \<Rightarrow> (string \<times> string option) list" where
  "addLine line cs =
     (let pieces = split line '': '';
          name = (case pieces of [] \<Rightarrow> ''undefined'' | n # _ \<Rightarrow> n);
          status = (case pieces of _ # st # _ \<Rightarrow> Some st | _ \<Rightarrow> None)
      in AList.update name status cs)"

fun checkContainers :: "ExecResult \<Rightarrow> ContainerStatus" where
  "checkContainers (ExecError msg) = InspectionError msg"
| "checkContainers (ExecOutput stdout) =
     Containers (fold addLine (split (trim stdout) [CHR 0x0A]) [])"

subsection \<open>The alert engine: \<^verbatim>\<open>generateAlerts\<close>\<close>

datatype Level = HIGH | MEDIUM

record Alert =
  level :: Level
  service :: string
  message :: string
  timestamp :: string

datatype error = TypeError string

text \<open>
  \<^verbatim>\<open>${result.error || result.statusCode}\<close>: the error message unless it is
  \<^verbatim>\<open>undefined\<close> or empty, else the status code, and \<^verbatim>\<open>undefined\<close> is printed as
  that word.
\<close>

definition errorOrStatusCode :: "ProbeResult \<Rightarrow> string" where
  "errorOrStatusCode result =
     (let code = (case ProbeResult.statusCode result of
                    None \<Rightarrow> ''undefined''
                  | Some c \<Rightarrow> numberToString c)
      in case error result of
           None \<Rightarrow> code
         | Some e \<Rightarrow> if e = [] then code else e)"

text \<open>
  The body of the loop over the service results. \<^verbatim>\<open>alerts.push\<close> appends to the
  list. The clock reading \<open>now\<close> stands for the \<^verbatim>\<open>new Date()\<close> of each alert.
  Comparing \<^verbatim>\<open>undefined\<close> with a number is false, and \<^verbatim>\<open>null\<close> and
  \<^verbatim>\<open>undefined\<close> are both falsy.
\<close>

definition resultAlerts :: "Config \<Rightarrow> Date \<Rightarrow> ProbeResult \<Rightarrow> Alert list \<Rightarrow> Alert list" where
  "resultAlerts cfg now result alerts0 =
     (let alerts1 =
            (if status result = ERROR \<or> status result = UNHEALTHY \<or> status result = TIMEOUT
             then alerts0 @
               [\<lparr>level = HIGH,
                 service = ProbeResult.name result,
                 message = ProbeResult.name result @ '' is '' @ statusString (status result)
                   @ '': '' @ errorOrStatusCode result,
                 timestamp = toISOString now\<rparr>]
             else alerts0);
          alerts2 =
            (case ProbeResult.responseTime result of
               None \<Rightarrow> alerts1
             | Some t \<Rightarrow>
                 if t > Thresholds.responseTime (thresholds cfg)
                 then alerts1 @
                   [\<lparr>level = MEDIUM,
                     service = ProbeResult.name result,
                     message = ProbeResult.name result @ '' response time (''
                       @ numberToString t @ ''ms) exceeds threshold (''
                       @ numberToString (Thresholds.responseTime (thresholds cfg)) @ ''ms)'',
                     timestamp = toISOString now\<rparr>]
                 else alerts1);
          alerts3 =
            (case certificate result of
               Present cert \<Rightarrow>
                 if daysToExpiration cert < certExpirationDays (thresholds cfg)
                 then alerts2 @
                   [\<lparr>level = HIGH,
                     service = ProbeResult.name result,
                     message = ''SSL Certificate for '' @ ProbeResult.name result
                       @ '' expires in '' @ numberToString (daysToExpiration cert) @ '' days'',
                     timestamp = toISOString now\<rparr>]
                 else alerts2
             | _ \<Rightarrow> alerts2)
      in alerts3)"

text \<open>
  The loop over the entries of the container mapping. Calling \<^verbatim>\<open>includes\<close> on a
  status that is \<^verbatim>\<open>undefined\<close> throws a \<^verbatim>\<open>TypeError\<close>, which ends
  \<^verbatim>\<open>generateAlerts\<close> without a result.
\<close>

fun containerAlerts :: "Date \<Rightarrow> (string \<times> string option) list \<Rightarrow> Alert list \<Rightarrow> error + Alert list" where
  "containerAlerts now [] alerts = Inr alerts"
| "containerAlerts now ((cname, cstatus) # entries) alerts =
     (case cstatus of
        None \<Rightarrow> Inl (TypeError ''Cannot read properties of undefined (reading 'includes')'')
      | Some st \<Rightarrow>
          containerAlerts now entries
            (if \<not> includes_str st ''Up ''
             then alerts @
               [\<lparr>level = HIGH,
                 service = cname,
                 message = ''Container '' @ cname @ '' is not running: '' @ st,
                 timestamp = toISOString now\<rparr>]
             else alerts))"

definition generateAlerts :: "Config \<Rightarrow> Date \<Rightarrow> ProbeResult list \<Rightarrow> ContainerStatus \<Rightarrow> error + Alert list" where
  "generateAlerts cfg now serviceResults containerStatus =
     (let alerts = fold (resultAlerts cfg now) serviceResults []
      in case containers containerStatus of
           None \<Rightarrow> Inr alerts
         | Some cs \<Rightarrow> containerAlerts now cs alerts)"

subsection \<open>The metrics store\<close>

text \<open>
  The snapshot the script keeps in \<^verbatim>\<open>metrics\<close>. \<^verbatim>\<open>lastCheck\<close> is \<^verbatim>\<open>null\<close> (\<open>None\<close>)
  until the first cycle has set it. \<^verbatim>\<open>services\<close> is an object used as a mapping from
  a service name to its latest result: an association list in the order the keys were
  first set, each key once. \<^verbatim>\<open>containerStatus\<close> is \<^verbatim>\<open>undefined\<close> (\<open>None\<close>) before
  the first cycle and after a cycle whose inspection failed.
\<close>

record Metrics =
  lastCheck :: "string option"
  services :: "(string \<times> ProbeResult) list"
  alerts :: "Alert list"
  containerStatus :: "(string \<times> string option) list option"

definition initialMetrics :: Metrics where
  "initialMetrics = \<lparr>lastCheck = None, services = [], alerts = [], containerStatus = None\<rparr>"

text \<open>
  The metrics file holds JSON. The model keeps the document, not its text: printing a
  document with \<^verbatim>\<open>JSON.stringify\<close> and reading the text back with \<^verbatim>\<open>JSON.parse\<close> is
  the work of the runtime. What is modelled is which document \<^verbatim>\<open>JSON.stringify\<close>
  makes of a snapshot: a property whose value is \<^verbatim>\<open>undefined\<close> is left out, one that
  is \<^verbatim>\<open>null\<close> is written as \<^verbatim>\<open>null\<close>, and the properties come in the order in which
  the object literals of the script set them.
\<close>

datatype json =
  JNull
| JBool bool
| JNumber int
| JString string
| JArray "json list"
| JObject "(string \<times> json) list"

definition unlessUndefined :: "string \<Rightarrow> ('a \<Rightarrow> json) \<Rightarrow> 'a option \<Rightarrow> (string \<times> json) list" where
  "unlessUndefined k enc v = (case v of None \<Rightarrow> [] | Some x \<Rightarrow> [(k, enc x)])"

definition jsonOfCertificate :: "CertificateInfo \<Rightarrow> json" where
  "jsonOfCertificate c =
     JObject
       [(''issuer'', JString (issuer c)),
        (''expirationDate'', JString (expirationDate c)),
        (''daysToExpiration'', JNumber (daysToExpiration c))]"

definition jsonOfResult :: "ProbeResult \<Rightarrow> json" where
  "jsonOfResult r =
     JObject
       ([(''name'', JString (ProbeResult.name r)),
         (''url'', JString (ProbeResult.url r)),
         (''status'', JString (statusString (status r)))]
        @ unlessUndefined ''statusCode'' JNumber (ProbeResult.statusCode r)
        @ unlessUndefined ''responseTime'' JNumber (ProbeResult.responseTime r)
        @ (case certificate r of
             Missing \<Rightarrow> []
           | Null \<Rightarrow> [(''certificate'', JNull)]
           | Present c \<Rightarrow> [(''certificate'', jsonOfCertificate c)])
        @ unlessUndefined ''error'' JString (error r)
        @ unlessUndefined ''timestamp'' JString (ProbeResult.timestamp r))"

fun levelString :: "Level \<Rightarrow> string" where
  "levelString HIGH = ''HIGH''"
| "levelString MEDIUM = ''MEDIUM''"

definition jsonOfAlert :: "Alert \<Rightarrow> json" where
  "jsonOfAlert a =
     JObject
       [(''level'', JString (levelString (level a))),
        (''service'', JString (service a)),
        (''message'', JString (message a)),
        (''timestamp'', JString (Alert.timestamp a))]"

definition jsonOfContainers :: "(string \<times> string option) list \<Rightarrow> json" where
  "jsonOfContainers cs = JObject (concat (map (\<lambda>(k, st). unlessUndefined k JString st) cs))"

definition jsonOfMetrics :: "Metrics \<Rightarrow> json" where
  "jsonOfMetrics m =
     JObject
       ([(''lastCheck'', (case lastCheck m of None \<Rightarrow> JNull | Some t \<Rightarrow> JString t)),
         (''services'', JObject (map (\<lambda>(k, r). (k, jsonOfResult r)) (Metrics.services m))),
         (''alerts'', JArray (map jsonOfAlert (alerts m)))]
        @ unlessUndefined ''containerStatus'' jsonOfContainers (containerStatus m))"

text \<open>
  Reading a document as a snapshot: the documents that \<^const>\<open>jsonOfMetrics\<close> writes, and
  no others. The members of an object are read in their order, and nothing may be left
  over.
\<close>

definition required :: "string \<Rightarrow> (json \<Rightarrow> 'a option) \<Rightarrow> (string \<times> json) list \<Rightarrow> ('a \<times> (string \<times> json) list) option" where
  "required k dec ms =
     (case ms of
        [] \<Rightarrow> None
      | (k', v) # rest \<Rightarrow> if k' = k then map_option (\<lambda>x. (x, rest)) (dec v) else None)"

definition optional :: "string \<Rightarrow> (json \<Rightarrow> 'a option) \<Rightarrow> (string \<times> json) list \<Rightarrow> ('a option \<times> (string \<times> json) list) option" where
  "optional k dec ms =
     (case ms of
        [] \<Rightarrow> Some (None, [])
      | (k', v) # rest \<Rightarrow>
          if k' = k then map_option (\<lambda>x. (Some x, rest)) (dec v) else Some (None, ms))"

definition finished :: "(string \<times> json) list \<Rightarrow> 'a \<Rightarrow> 'a option" where
  "finished ms x = (if ms = [] then Some x else None)"

fun asString :: "json \<Rightarrow> string option" where
  "asString (JString s) = Some s"
| "asString _ = None"

fun asNumber :: "json \<Rightarrow> int option" where
  "asNumber (JNumber i) = Some i"
| "asNumber _ = None"

fun asStringOrNull :: "json \<Rightarrow> string option option" where
  "asStringOrNull JNull = Some None"
| "asStringOrNull (JString s) = Some (Some s)"
| "asStringOrNull _ = None"

definition statusOfString :: "string \<Rightarrow> Status option" where
  "statusOfString s =
     (if s = ''HEALTHY'' then Some HEALTHY
      else if s = ''UNHEALTHY'' then Some UNHEALTHY
      else if s = ''TIMEOUT'' then Some TIMEOUT
      else if s = ''ERROR'' then Some ERROR
      else None)"

definition levelOfString :: "string \<Rightarrow> Level option" where
  "levelOfString s =
     (if s = ''HIGH'' then Some HIGH else if s = ''MEDIUM'' then Some MEDIUM else None)"

definition asStatus :: "json \<Rightarrow> Status option" where
  "asStatus j = Option.bind (asString j) statusOfString"

definition asLevel :: "json \<Rightarrow> Level option" where
  "asLevel j = Option.bind (asString j) levelOfString"

definition certificateOfJson :: "json \<Rightarrow> CertificateInfo option" where
  "certificateOfJson j =
     (case j of
        JObject ms0 \<Rightarrow>
          do {
            (i, ms1) \<leftarrow> required ''issuer'' asString ms0;
            (e, ms2) \<leftarrow> required ''expirationDate'' asString ms1;
            (d, ms3) \<leftarrow> required ''daysToExpiration'' asNumber ms2;
            finished ms3 \<lparr>issuer = i, expirationDate = e, daysToExpiration = d\<rparr>
          }
      | _ \<Rightarrow> None)"

definition asCertificateOrNull :: "json \<Rightarrow> CertificateInfo field option" where
  "asCertificateOrNull j =
     (case j of JNull \<Rightarrow> Some Null | _ \<Rightarrow> map_option Present (certificateOfJson j))"

definition resultOfJson :: "json \<Rightarrow> ProbeResult option" where
  "resultOfJson j =
     (case j of
        JObject ms0 \<Rightarrow>
          do {
            (n, ms1) \<leftarrow> required ''name'' asString ms0;
            (u, ms2) \<leftarrow> required ''url'' asString ms1;
            (s, ms3) \<leftarrow> required ''status'' asStatus ms2;
            (c, ms4) \<leftarrow> optional ''statusCode'' asNumber ms3;
            (t, ms5) \<leftarrow> optional ''responseTime'' asNumber ms4;
            (ci, ms6) \<leftarrow> optional ''certificate'' asCertificateOrNull ms5;
            (e, ms7) \<leftarrow> optional ''error'' asString ms6;
            (ts, ms8) \<leftarrow> optional ''timestamp'' asString ms7;
            finished ms8
              \<lparr>name = n, url = u, status = s, statusCode = c, responseTime = t,
               certificate = (case ci of None \<Rightarrow> Missing | Some f \<Rightarrow> f),
               error = e, timestamp = ts\<rparr>
          }
      | _ \<Rightarrow> None)"

definition alertOfJson :: "json \<Rightarrow> Alert option" where
  "alertOfJson j =
     (case j of
        JObject ms0 \<Rightarrow>
          do {
            (l, ms1) \<leftarrow> required ''level'' asLevel ms0;
            (s, ms2) \<leftarrow> required ''service'' asString ms1;
            (m, ms3) \<leftarrow> required ''message'' asString ms2;
            (t, ms4) \<leftarrow> required ''timestamp'' asString ms3;
            finished ms4 \<lparr>level = l, service = s, message = m, timestamp = t\<rparr>
          }
      | _ \<Rightarrow> None)"

definition membersOfJson :: "(json \<Rightarrow> 'a option) \<Rightarrow> json \<Rightarrow> (string \<times> 'a) list option" where
  "membersOfJson dec j =
     (case j of
        JObject ms \<Rightarrow> those (map (\<lambda>(k, v). map_option (Pair k) (dec v)) ms)
      | _ \<Rightarrow> None)"

definition elementsOfJson :: "(json \<Rightarrow> 'a option) \<Rightarrow> json \<Rightarrow> 'a list option" where
  "elementsOfJson dec j = (case j of JArray vs \<Rightarrow> those (map dec vs) | _ \<Rightarrow> None)"

definition asContainerStatus :: "json \<Rightarrow> string option option" where
  "asContainerStatus j = map_option Some (asString j)"

definition metricsOfJson :: "json \<Rightarrow> Metrics option" where
  "metricsOfJson j =
     (case j of
        JObject ms0 \<Rightarrow>
          do {
            (lc, ms1) \<leftarrow> required ''lastCheck'' asStringOrNull ms0;
            (sv, ms2) \<leftarrow> required ''services'' (membersOfJson resultOfJson) ms1;
            (al, ms3) \<leftarrow> required ''alerts'' (elementsOfJson alertOfJson) ms2;
            (cs, ms4) \<leftarrow> optional ''containerStatus'' (membersOfJson asContainerStatus) ms3;
            finished ms4 \<lparr>lastCheck = lc, services = sv, alerts = al, containerStatus = cs\<rparr>
          }
      | _ \<Rightarrow> None)"

text \<open>
  The metrics file as the script finds it at start-up: not there, there with a content
  on which reading or \<^verbatim>\<open>JSON.parse\<close> throws, or there with a document. The \<^verbatim>\<open>try\<close>
  block assigns the parsed document to \<^verbatim>\<open>metrics\<close>; when the file is not there
  \<^verbatim>\<open>metrics\<close> keeps its initial value, and when something throws, the \<^verbatim>\<open>catch\<close> logs
  the error and \<^verbatim>\<open>metrics\<close> keeps its initial value as well. A document that is not a
  snapshot is kept as it is; what a cycle does with one is not part of this
  development.
\<close>

datatype File = Absent | Unparseable | Document json

datatype Memory = Snapshot Metrics | Foreign json

fun load :: "File \<Rightarrow> Memory" where
  "load Absent = Snapshot initialMetrics"
| "load Unparseable = Snapshot initialMetrics"
| "load (Document j) =
     (case metricsOfJson j of Some m \<Rightarrow> Snapshot m | None \<Rightarrow> Foreign j)"

text \<open>\<^verbatim>\<open>fs.writeFileSync(config.metricsFile, JSON.stringify(metrics, null, 2))\<close>.\<close>

definition save :: "Metrics \<Rightarrow> File" where
  "save m = Document (jsonOfMetrics m)"

subsection \<open>One cycle: \<^verbatim>\<open>runCheck\<close>\<close>

text \<open>
  What one cycle takes from the world: for each service the callback of its probe that
  runs first and the clock reading at its start, the outcome of \<^verbatim>\<open>docker ps\<close>, and the
  clock readings for the alerts and for \<^verbatim>\<open>lastCheck\<close>.
\<close>

record World =
  firstCallback :: "ServiceTarget \<Rightarrow> Callback"
  startTime :: "ServiceTarget \<Rightarrow> int"
  dockerPs :: ExecResult
  alertTime :: Date
  checkTime :: Date

text \<open>
  A cycle ends with an error when \<^verbatim>\<open>generateAlerts\<close> throws: nothing is assigned and
  nothing is written then. Otherwise it returns the new snapshot and the file it wrote.
  \<^verbatim>\<open>metrics.services[result.name] = result\<close> replaces the entry of that name or adds
  one at the end. The write to the file is taken to succeed, and the report on the
  console is not modelled.
\<close>

definition runCheck :: "Config \<Rightarrow> World \<Rightarrow> Metrics \<Rightarrow> error + (Metrics \<times> File)" where
  "runCheck cfg world metrics =
     (let serviceResults =
            map (\<lambda>service. checkService cfg service (startTime world service)
                   (firstCallback world service))
              (Config.services cfg);
          containerStatus = checkContainers (dockerPs world)
      in case generateAlerts cfg (alertTime world) serviceResults containerStatus of
           Inl e \<Rightarrow> Inl e
         | Inr currentAlerts \<Rightarrow>
             (let metrics' =
                    metrics
                      \<lparr>lastCheck := Some (toISOString (checkTime world)),
                       services :=
                         fold (\<lambda>result svcs. AList.update (ProbeResult.name result) result svcs)
                           serviceResults (Metrics.services metrics),
                       containerStatus := containers containerStatus,
                       alerts := currentAlerts\<rparr>
              in Inr (metrics', save metrics')))"

subsection \<open>The three rules of the loop body, one by one\<close>

text \<open>
  What each of the three \<^verbatim>\<open>if\<close> statements of the loop body pushes. The loop body is
  shown below to push the three lists one after the other.
\<close>

definition statusRule :: "Date \<Rightarrow> ProbeResult \<Rightarrow> Alert list" where
  "statusRule now result =
     (if status result = ERROR \<or> status result = UNHEALTHY \<or> status result = TIMEOUT
      then [\<lparr>level = HIGH,
             service = ProbeResult.name result,
             message = ProbeResult.name result @ '' is '' @ statusString (status result)
               @ '': '' @ errorOrStatusCode result,
             timestamp = toISOString now\<rparr>]
      else [])"

definition responseTimeRule :: "Config \<Rightarrow> Date \<Rightarrow> ProbeResult \<Rightarrow> Alert list" where
  "responseTimeRule cfg now result =
     (case ProbeResult.responseTime result of
        None \<Rightarrow> []
      | Some t \<Rightarrow>
          if t > Thresholds.responseTime (thresholds cfg)
          then [\<lparr>level = MEDIUM,
                 service = ProbeResult.name result,
                 message = ProbeResult.name result @ '' response time (''
                   @ numberToString t @ ''ms) exceeds threshold (''
                   @ numberToString (Thresholds.responseTime (thresholds cfg)) @ ''ms)'',
                 timestamp = toISOString now\<rparr>]
          else [])"

definition certificateRule :: "Config \<Rightarrow> Date \<Rightarrow> ProbeResult \<Rightarrow> Alert list" where
  "certificateRule cfg now result =
     (case certificate result of
        Present cert \<Rightarrow>
          if daysToExpiration cert < certExpirationDays (thresholds cfg)
          then [\<lparr>level = HIGH,
                 service = ProbeResult.name result,
                 message = ''SSL Certificate for '' @ ProbeResult.name result
                   @ '' expires in '' @ numberToString (daysToExpiration cert) @ '' days'',
                 timestamp = toISOString now\<rparr>]
          else []
      | _ \<Rightarrow> [])"

text \<open>
  What the loop over the containers pushes when it runs to its end: one alert for each
  entry whose status does not include \<^verbatim>\<open>Up \<close>, in the order of the entries.
\<close>

fun containerRule :: "Date \<Rightarrow> (string \<times> string option) list \<Rightarrow> Alert list" where
  "containerRule now [] = []"
| "containerRule now ((cname, cstatus) # entries) =
     (case cstatus of
        None \<Rightarrow> []
      | Some st \<Rightarrow>
          if \<not> includes_str st ''Up ''
          then [\<lparr>level = HIGH,
                 service = cname,
                 message = ''Container '' @ cname @ '' is not running: '' @ st,
                 timestamp = toISOString now\<rparr>]
          else [])
     @ containerRule now entries"

text \<open>
  A snapshot can be stored without loss when none of its container statuses is
  \<^verbatim>\<open>undefined\<close>: \<^verbatim>\<open>JSON.stringify\<close> would leave such an entry out. Every snapshot a
  cycle saves is of this kind, as shown below.
\<close>

definition storable :: "Metrics \<Rightarrow> bool" where
  "storable m =
     (case containerStatus m of
        None \<Rightarrow> True
      | Some cs \<Rightarrow> list_all (\<lambda>e. snd e \<noteq> None) cs)"

text \<open>
  The outcome of an inspection is usable by the alert engine when the inspection failed,
  or when every status of the mapping is a string.
\<close>

definition usable :: "ContainerStatus \<Rightarrow> bool" where
  "usable inspection =
     (case containers inspection of
        None \<Rightarrow> True
      | Some cs \<Rightarrow> list_all (\<lambda>e. snd e \<noteq> None) cs)"

section \<open>Properties\<close>

subsection \<open>Strings\<close>

text \<open>\<^const>\<open>includes_str\<close> is the test for a contiguous sublist of the library.\<close>

lemma includes_str_sublist: "includes_str s p = sublist p s"
  by (induction s) (simp_all add: sublist_Cons_right)

subsection \<open>Messages of different rules differ\<close>

text \<open>
  The message of a status alert starts with the service name followed by \<^verbatim>\<open> is \<close> and
  the status; the message of a certificate alert starts with \<^verbatim>\<open>SSL Certificate for \<close>
  followed by the service name. Whatever the name is, the two cannot be the same string:
  a name that is a prefix of a string \<open>p\<close> followed by that name is made of the
  characters of \<open>p\<close>, and the capital letter a status starts with is not among those.
\<close>

lemma prefix_own_extension:
  "p \<noteq> [] \<Longrightarrow> prefix n (p @ n) \<Longrightarrow> set n \<subseteq> set p"
proof (induction "length n" arbitrary: n rule: less_induct)
  case less
  show ?case
  proof (cases "length n \<le> length p")
    case True
    with less.prems(2) have "prefix n p"
      by (metis prefix_length_prefix prefixI)
    then show ?thesis by (auto simp: prefix_def)
  next
    case False
    then have len: "length p < length n" by simp
    from less.prems(2) obtain z where z: "p @ n = n @ z" by (auto simp: prefix_def)
    have "take (length p) (p @ n) = take (length p) (n @ z)" using z by simp
    then have "p = take (length p) n" using len by simp
    then obtain n' where n': "n = p @ n'"
      by (metis append_take_drop_id)
    have "prefix (p @ n') (p @ p @ n')" using less.prems(2) n' by simp
    then have "prefix n' (p @ n')" by simp
    moreover have "length n' < length n" using n' less.prems(1) by simp
    ultimately have "set n' \<subseteq> set p" using less.hyps less.prems(1) by blast
    then show ?thesis using n' by (metis le_sup_iff set_append subset_refl)
  qed
qed

lemma no_foreign_char:
  assumes eq: "n @ s @ c # x = p @ n @ y"
    and len: "length s < length p"
    and c: "c \<notin> set p"
  shows False
proof -
  let ?m = "n @ s @ [c]"
  have "prefix ?m (p @ n @ y)" using eq by (metis append.assoc append_Cons append_Nil prefixI)
  moreover have "prefix (p @ n) (p @ n @ y)" by simp
  moreover have "length ?m \<le> length (p @ n)" using len by simp
  ultimately have "prefix ?m (p @ n)" 
    by (metis prefix_length_prefix)
  then have "prefix ?m (p @ ?m)" by (metis append.assoc prefix_prefix)
  moreover have "p \<noteq> []" using len by auto
  ultimately have "set ?m \<subseteq> set p" by (rule prefix_own_extension[rotated])
  then show False using c by simp
qed

lemma status_message_not_certificate:
  "n @ '' is '' @ statusString st @ x \<noteq> ''SSL Certificate for '' @ n @ y"
proof
  assume eq: "n @ '' is '' @ statusString st @ x = ''SSL Certificate for '' @ n @ y"
  obtain c cs where c: "statusString st = c # cs" "c \<notin> set ''SSL Certificate for ''"
    by (cases st) simp_all
  from eq c(1) have "n @ '' is '' @ c # (cs @ x) = ''SSL Certificate for '' @ n @ y" by simp
  from no_foreign_char[OF this _ c(2)] show False by simp
qed


subsection \<open>The alert engine\<close>

lemma resultAlerts_append:
  "resultAlerts cfg now r acc = acc @ resultAlerts cfg now r []"
  by (simp add: resultAlerts_def Let_def split: option.splits field.splits)

lemma fold_resultAlerts:
  "fold (resultAlerts cfg now) rs acc = acc @ concat (map (\<lambda>r. resultAlerts cfg now r []) rs)"
proof (induction rs arbitrary: acc)
  case Nil
  show ?case by simp
next
  case (Cons r rs)
  have "fold (resultAlerts cfg now) (r # rs) acc = fold (resultAlerts cfg now) rs (resultAlerts cfg now r acc)"
    by simp
  also have "\<dots> = resultAlerts cfg now r acc @ concat (map (\<lambda>r. resultAlerts cfg now r []) rs)"
    by (rule Cons.IH)
  also have "\<dots> = acc @ resultAlerts cfg now r [] @ concat (map (\<lambda>r. resultAlerts cfg now r []) rs)"
    by (subst resultAlerts_append) simp
  finally show ?case by simp
qed

lemma containerAlerts_extends:
  "containerAlerts now cs acc = Inr out \<Longrightarrow>
     \<exists>extra. out = acc @ extra \<and> list_all (\<lambda>a. level a = HIGH) extra"
proof (induction cs arbitrary: acc)
  case Nil
  then show ?case by simp
next
  case (Cons c cs)
  obtain k st where c: "c = (k, st)" by (cases c)
  show ?case
  proof (cases st)
    case None
    with Cons.prems c show ?thesis by simp
  next
    case (Some s)
    let ?acc' = "(if \<not> includes_str s ''Up ''
             then acc @
               [\<lparr>level = HIGH, service = k,
                 message = ''Container '' @ k @ '' is not running: '' @ s,
                 timestamp = toISOString now\<rparr>]
             else acc)"
    from Cons.prems c Some have "containerAlerts now cs ?acc' = Inr out" by simp
    from Cons.IH[OF this] obtain extra where
      e: "out = ?acc' @ extra" "list_all (\<lambda>a. level a = HIGH) extra" by blast
    show ?thesis
    proof (cases "includes_str s ''Up ''")
      case True
      with e show ?thesis by auto
    next
      case False
      with e have "out = acc @ (\<lparr>level = HIGH, service = k,
                 message = ''Container '' @ k @ '' is not running: '' @ s,
                 timestamp = toISOString now\<rparr> # extra)" by simp
      moreover have "list_all (\<lambda>a. level a = HIGH) (\<lparr>level = HIGH, service = k,
                 message = ''Container '' @ k @ '' is not running: '' @ s,
                 timestamp = toISOString now\<rparr> # extra)" using e(2) by simp
      ultimately show ?thesis by blast
    qed
  qed
qed

lemma generateAlerts_extends:
  assumes "generateAlerts cfg now rs cs = Inr out"
  shows "\<exists>extra. out = concat (map (\<lambda>r. resultAlerts cfg now r []) rs) @ extra
           \<and> list_all (\<lambda>a. level a = HIGH) extra"
proof (cases cs)
  case (InspectionError msg)
  with assms have "out = concat (map (\<lambda>r. resultAlerts cfg now r []) rs) @ []"
    by (simp add: generateAlerts_def fold_resultAlerts)
  then show ?thesis by (intro exI[of _ "[]"]) simp
next
  case (Containers entries)
  with assms have "containerAlerts now entries (concat (map (\<lambda>r. resultAlerts cfg now r []) rs)) = Inr out"
    by (simp add: generateAlerts_def fold_resultAlerts)
  then show ?thesis by (rule containerAlerts_extends)
qed

lemma generateAlerts_contains:
  assumes "generateAlerts cfg now rs cs = Inr out" and "r \<in> set rs"
  shows "set (resultAlerts cfg now r []) \<subseteq> set out"
proof -
  from generateAlerts_extends[OF assms(1)] obtain extra where
    "out = concat (map (\<lambda>r. resultAlerts cfg now r []) rs) @ extra" by blast
  with assms(2) show ?thesis by auto
qed

lemma numberToString_1500: "numberToString 1500 = ''1500''" and numberToString_1501: "numberToString 1501 = ''1501''"
  by code_simp+

lemma resultAlerts_rules:
  "resultAlerts cfg now r acc
     = acc @ statusRule now r @ responseTimeRule cfg now r @ certificateRule cfg now r"
  by (simp add: resultAlerts_def statusRule_def responseTimeRule_def certificateRule_def Let_def
      split: option.splits field.splits)

lemma responseTimeRule_level:
  "a \<in> set (responseTimeRule cfg now r) \<Longrightarrow> level a = MEDIUM"
  by (auto simp add: responseTimeRule_def split: option.splits if_splits)


lemma certificateRule_level:
  "a \<in> set (certificateRule cfg now r) \<Longrightarrow> level a = HIGH"
  by (auto simp add: certificateRule_def split: field.splits if_splits)

lemma certificateRule_message:
  assumes "a \<in> set (certificateRule cfg now r)"
  shows "message a \<noteq> ProbeResult.name r @ '' is '' @ statusString st @ x"
proof -
  from assms obtain y where "message a = ''SSL Certificate for '' @ ProbeResult.name r @ y"
    by (auto simp add: certificateRule_def split: field.splits if_splits)
  then show ?thesis
    using status_message_not_certificate [of "ProbeResult.name r" st x y] by simp
qed

lemma statusRule_message:
  assumes "a \<in> set (statusRule now r)"
  shows "message a \<noteq> ''SSL Certificate for '' @ ProbeResult.name r @ y"
proof -
  from assms have "message a = ProbeResult.name r @ '' is '' @ statusString (status r)
      @ '': '' @ errorOrStatusCode r"
    by (simp add: statusRule_def split: if_splits)
  then show ?thesis
    using status_message_not_certificate
      [of "ProbeResult.name r" "status r" "'': '' @ errorOrStatusCode r" y] by simp
qed

lemma filter_none: "(\<And>a. a \<in> set xs \<Longrightarrow> \<not> P a) \<Longrightarrow> filter P xs = []"
  by (simp add: filter_empty_conv)

lemma numberToString_404: "numberToString 404 = ''404''"
  and numberToString_5: "numberToString 5 = ''5''"
  and numberToString_minus_3: "numberToString (- 3) = ''-3''"
  by code_simp+

lemma status_alert_alone:
  assumes bad: "status r = ERROR \<or> status r = UNHEALTHY \<or> status r = TIMEOUT"
  shows "filter (\<lambda>a. level a = HIGH \<and> Alert.service a = ProbeResult.name r
                  \<and> message a = ProbeResult.name r @ '' is '' @ statusString (status r)
                       @ '': '' @ errorOrStatusCode r)
           (resultAlerts cfg now r [])
         = [\<lparr>level = HIGH, service = ProbeResult.name r,
             message = ProbeResult.name r @ '' is '' @ statusString (status r)
                       @ '': '' @ errorOrStatusCode r,
             timestamp = toISOString now\<rparr>]"
    (is "filter ?P _ = [?alert]")
proof -
  have one: "filter ?P (statusRule now r) = [?alert]"
    using bad by (simp add: statusRule_def)
  have two: "filter ?P (responseTimeRule cfg now r) = []"
  proof (rule filter_none)
    fix a assume "a \<in> set (responseTimeRule cfg now r)"
    then have "level a = MEDIUM" by (rule responseTimeRule_level)
    then show "\<not> ?P a" by simp
  qed
  have three: "filter ?P (certificateRule cfg now r) = []"
  proof (rule filter_none)
    fix a assume "a \<in> set (certificateRule cfg now r)"
    then have "message a \<noteq> ProbeResult.name r @ '' is '' @ statusString (status r)
        @ '': '' @ errorOrStatusCode r"
      by (rule certificateRule_message)
    then show "\<not> ?P a" by blast
  qed
  have "filter ?P (resultAlerts cfg now r [])
      = filter ?P (statusRule now r) @ filter ?P (responseTimeRule cfg now r)
        @ filter ?P (certificateRule cfg now r)"
    by (simp only: resultAlerts_rules filter_append append_Nil)
  then show ?thesis by (simp only: one two three append_Nil2)
qed

lemma filter_single: "P x \<Longrightarrow> filter P [x] = [x]"
  by simp

lemma certificate_alerts:
  assumes c: "certificate r = Present cert"
  shows "filter (\<lambda>a. level a = HIGH
                  \<and> (\<exists>d. message a = ''SSL Certificate for '' @ ProbeResult.name r
                         @ '' expires in '' @ numberToString d @ '' days''))
           (resultAlerts cfg now r [])
         = (if daysToExpiration cert < certExpirationDays (thresholds cfg)
            then [\<lparr>level = HIGH, service = ProbeResult.name r,
                   message = ''SSL Certificate for '' @ ProbeResult.name r
                     @ '' expires in '' @ numberToString (daysToExpiration cert) @ '' days'',
                   timestamp = toISOString now\<rparr>]
            else [])"
    (is "filter ?P _ = (if ?low then [?alert] else [])")
proof -
  have one: "filter ?P (statusRule now r) = []"
  proof (rule filter_none)
    fix a assume a: "a \<in> set (statusRule now r)"
    show "\<not> ?P a"
    proof
      assume "?P a"
      then have "\<exists>d. message a = ''SSL Certificate for '' @ ProbeResult.name r
                         @ '' expires in '' @ numberToString d @ '' days''" by (rule conjunct2)
      then obtain d where "message a = ''SSL Certificate for '' @ ProbeResult.name r
                         @ '' expires in '' @ numberToString d @ '' days''" by (rule exE)
      with statusRule_message [OF a] show False by (rule notE)
    qed
  qed
  have two: "filter ?P (responseTimeRule cfg now r) = []"
  proof (rule filter_none)
    fix a assume "a \<in> set (responseTimeRule cfg now r)"
    then have "level a = MEDIUM" by (rule responseTimeRule_level)
    then show "\<not> ?P a" by simp
  qed
  have rule: "certificateRule cfg now r = (if ?low then [?alert] else [])"
    using c by (simp add: certificateRule_def)
  have holds: "filter ?P [?alert] = [?alert]"
  proof (rule filter_single)
    show "?P ?alert"
    proof (rule conjI)
      show "level ?alert = HIGH" by simp
      show "\<exists>d. message ?alert = ''SSL Certificate for '' @ ProbeResult.name r
          @ '' expires in '' @ numberToString d @ '' days''"
        by (rule exI [of _ "daysToExpiration cert"]) simp
    qed
  qed
  have three: "filter ?P (certificateRule cfg now r) = (if ?low then [?alert] else [])"
  proof (cases ?low)
    case True
    then show ?thesis by (simp only: rule if_True holds)
  next
    case False
    then show ?thesis by (simp only: rule if_False filter.simps)
  qed
  have "filter ?P (resultAlerts cfg now r [])
      = filter ?P (statusRule now r) @ filter ?P (responseTimeRule cfg now r)
        @ filter ?P (certificateRule cfg now r)"
    by (simp only: resultAlerts_rules filter_append append_Nil)
  then show ?thesis by (simp only: one two three append_Nil)
qed


text \<open>
  Claim C9. The object the timer callback resolves with has no \<^verbatim>\<open>timestamp\<close>; the
  objects of the other two callbacks have one.
\<close>

theorem timeout_result_has_no_timestamp:
  "ProbeResult.timestamp (checkService cfg target started TimerFired) = None
   \<and> ProbeResult.timestamp (checkService cfg target started (Response res at)) = Some (toISOString at)
   \<and> ProbeResult.timestamp (checkService cfg target started (RequestError msg at)) = Some (toISOString at)"
  by (simp add: checkService_def)


lemma thresholds_config:
  "Thresholds.responseTime (thresholds config) = 1500"
  "certExpirationDays (thresholds config) = 14"
  by (simp_all add: config_def)



subsection \<open>The container inspector\<close>

text \<open>
  A line that includes \<^verbatim>\<open>: \<close> splits into at least two pieces, so that its
  container gets a status; and the inspector sets each name once.
\<close>

lemma split_nonempty: "sep \<noteq> [] \<Longrightarrow> split s sep \<noteq> []"
proof (induction s sep rule: split.induct)
  case (1 s sep)
  show ?case
  proof (cases "s = []")
    case True
    with "1.prems" show ?thesis by (simp add: split.simps)
  next
    case False
    show ?thesis
    proof (cases "prefix sep s")
      case True
      with "1.prems" False show ?thesis by (simp add: split.simps [of s sep])
    next
      case no: False
      with "1.prems" False show ?thesis
        by (simp add: split.simps [of s sep] split: list.splits)
    qed
  qed
qed

lemma split_two_pieces:
  "sep \<noteq> [] \<Longrightarrow> includes_str s sep \<Longrightarrow> \<exists>a b rest. split s sep = a # b # rest"
proof (induction s sep rule: split.induct)
  case (1 s sep)
  from "1.prems" have s: "s \<noteq> []" by (cases s) auto
  show ?case
  proof (cases "prefix sep s")
    case True
    from split_nonempty [OF "1.prems"(1), of "drop (length sep) s"]
    obtain b rest where "split (drop (length sep) s) sep = b # rest"
      by (cases "split (drop (length sep) s) sep") auto
    with "1.prems"(1) s True show ?thesis by (simp add: split.simps [of s sep])
  next
    case False
    from s obtain c cs where cs: "s = c # cs" by (cases s) auto
    with "1.prems"(2) False have "includes_str cs sep" by simp
    with "1.IH"(2) [OF "1.prems"(1) s False] "1.prems"(1) cs
    obtain a b rest where "split (tl s) sep = a # b # rest" by auto
    with "1.prems"(1) s False show ?thesis by (simp add: split.simps [of s sep])
  qed
qed

lemma update_defined:
  "list_all (\<lambda>e. snd e \<noteq> None) al \<Longrightarrow>
   list_all (\<lambda>e. snd e \<noteq> None) (AList.update k (Some v) al)"
  by (induction al) auto

lemma addLine_defined:
  assumes "includes_str line '': ''" and "list_all (\<lambda>e. snd e \<noteq> None) cs"
  shows "list_all (\<lambda>e. snd e \<noteq> None) (addLine line cs)"
proof -
  from split_two_pieces [OF _ assms(1)] obtain a b rest where
    "split line '': '' = a # b # rest" by auto
  then have eq: "addLine line cs = AList.update a (Some b) cs"
    by (simp add: addLine_def)
  show ?thesis unfolding eq using assms(2) by (rule update_defined)
qed

lemma fold_addLine_defined:
  "list_all (\<lambda>line. includes_str line '': '') lines \<Longrightarrow>
   list_all (\<lambda>e. snd e \<noteq> None) cs \<Longrightarrow>
   list_all (\<lambda>e. snd e \<noteq> None) (fold addLine lines cs)"
proof (induction lines arbitrary: cs)
  case Nil
  then show ?case by (simp only: fold_simps)
next
  case (Cons l lines)
  from Cons.prems(1) have l: "includes_str l '': ''"
    and rest: "list_all (\<lambda>line. includes_str line '': '') lines"
    by simp_all
  from addLine_defined [OF l Cons.prems(2)]
  have "list_all (\<lambda>e. snd e \<noteq> None) (fold addLine lines (addLine l cs))"
    by (rule Cons.IH [OF rest])
  then show ?case by (simp only: fold_simps)
qed

lemma fold_addLine_distinct:
  "distinct (map fst cs) \<Longrightarrow> distinct (map fst (fold addLine lines cs))"
  by (induction lines arbitrary: cs) (simp_all add: addLine_def Let_def distinct_update)

lemma checkContainers_distinct:
  "checkContainers outcome = Containers cs \<Longrightarrow> distinct (map fst cs)"
  by (cases outcome) (auto simp add: fold_addLine_distinct)

subsection \<open>The container loop\<close>

lemma containerAlerts_defined:
  "list_all (\<lambda>e. snd e \<noteq> None) entries \<Longrightarrow>
   containerAlerts now entries acc = Inr (acc @ containerRule now entries)"
proof (induction entries arbitrary: acc)
  case Nil
  show ?case by simp
next
  case (Cons e entries)
  obtain k st where e: "e = (k, st)" by (cases e)
  from Cons.prems e obtain s where s: "st = Some s" by auto
  from Cons.prems have rest: "list_all (\<lambda>e. snd e \<noteq> None) entries" by simp
  show ?case
    unfolding e s
    by (simp only: containerAlerts.simps containerRule.simps option.case Cons.IH [OF rest]
        append_assoc if_distrib [of "\<lambda>xs. xs @ containerRule now entries"]
        if_distrib [of "\<lambda>xs. acc @ xs"] append_Nil append_Nil2 append_Cons
        if_distrib [of Inr] split: if_splits) 
qed

lemma containerRule_service:
  "a \<in> set (containerRule now entries) \<Longrightarrow> Alert.service a \<in> fst ` set entries"
proof (induction entries)
  case Nil
  then show ?case by simp
next
  case (Cons e entries)
  obtain k st where e: "e = (k, st)" by (cases e)
  from Cons.prems e
  have "Alert.service a = k \<or> a \<in> set (containerRule now entries)"
    by (auto split: option.splits if_splits)
  with Cons.IH e show ?case by auto
qed

lemma containerRule_level:
  "list_all (\<lambda>a. level a = HIGH) (containerRule now entries)"
proof (induction entries)
  case Nil
  show ?case by simp
next
  case (Cons e entries)
  obtain k st where e: "e = (k, st)" by (cases e)
  show ?case unfolding e using Cons.IH by (simp split: option.splits)
qed

lemma containerRule_one:
  assumes "distinct (map fst entries)" and "(k, Some s) \<in> set entries"
  shows "filter (\<lambda>a. Alert.service a = k) (containerRule now entries)
         = (if includes_str s ''Up '' then []
            else [\<lparr>level = HIGH, service = k,
                   message = ''Container '' @ k @ '' is not running: '' @ s,
                   timestamp = toISOString now\<rparr>])"
  using assms
proof (induction entries)
  case Nil
  then show ?case by simp
next
  case (Cons e entries)
  obtain k' st where e: "e = (k', st)" by (cases e)
  from Cons.prems(1) e have d: "distinct (map fst entries)" and fresh: "k' \<notin> fst ` set entries"
    by simp_all
  show ?case
  proof (cases "(k, Some s) \<in> set entries")
    case True
    then have "k \<in> fst ` set entries" by force
    with fresh have ne: "k' \<noteq> k" by blast
    have "filter (\<lambda>a. Alert.service a = k) (containerRule now (e # entries))
        = filter (\<lambda>a. Alert.service a = k) (containerRule now entries)"
      unfolding e using ne by (simp split: option.splits)
    with Cons.IH [OF d True] show ?thesis by simp
  next
    case False
    with Cons.prems(2) e have here: "k' = k" "st = Some s" by auto
    have "filter (\<lambda>a. Alert.service a = k) (containerRule now entries) = []"
    proof (rule filter_none)
      fix a assume "a \<in> set (containerRule now entries)"
      then have "Alert.service a \<in> fst ` set entries" by (rule containerRule_service)
      with fresh here(1) show "\<not> Alert.service a = k" by blast
    qed
    then show ?thesis unfolding e here by simp
  qed
qed

text \<open>
  Claim C5. When the inspection returned a mapping in which every status is a string
  and every name occurs once, \<^verbatim>\<open>generateAlerts\<close> returns the alerts of the service
  results followed by the alerts of the container loop; these are all \<open>HIGH\<close>, and for
  every container of the mapping those naming it are exactly one, with the message
  \<^verbatim>\<open>Container {name} is not running: {status}\<close>, when its status does not include
  \<^verbatim>\<open>Up \<close>, and none when it does. For the mapping of \<^verbatim>\<open>web\<close>, up for two hours, and
  \<^verbatim>\<open>db\<close>, exited, and no service results, the list returned is the one alert for
  \<^verbatim>\<open>db\<close>.
\<close>

theorem stopped_containers_raise_one_high_alert:
  "(list_all (\<lambda>e. snd e \<noteq> None) entries \<and> distinct (map fst entries)
    \<longrightarrow> (\<exists>pushed.
           generateAlerts cfg now results (Containers entries)
             = Inr (fold (resultAlerts cfg now) results [] @ pushed)
           \<and> list_all (\<lambda>a. level a = HIGH) pushed
           \<and> (\<forall>k s. (k, Some s) \<in> set entries
                 \<longrightarrow> filter (\<lambda>a. Alert.service a = k) pushed
                       = (if includes_str s ''Up '' then []
                          else [\<lparr>level = HIGH, service = k,
                                 message = ''Container '' @ k @ '' is not running: '' @ s,
                                 timestamp = toISOString now\<rparr>]))))
   \<and> generateAlerts cfg now []
         (Containers [(''web'', Some ''Up 2 hours''), (''db'', Some ''Exited (1) 3 minutes ago'')])
       = Inr [\<lparr>level = HIGH, service = ''db'',
               message = ''Container db is not running: Exited (1) 3 minutes ago'',
               timestamp = toISOString now\<rparr>]"
proof (intro conjI impI)
  assume h: "list_all (\<lambda>e. snd e \<noteq> None) entries \<and> distinct (map fst entries)"
  then have defined: "list_all (\<lambda>e. snd e \<noteq> None) entries" and d: "distinct (map fst entries)"
    by simp_all
  have run: "generateAlerts cfg now results (Containers entries)
             = Inr (fold (resultAlerts cfg now) results [] @ containerRule now entries)"
    by (simp add: generateAlerts_def containerAlerts_defined [OF defined])
  have each: "\<forall>k s. (k, Some s) \<in> set entries
                 \<longrightarrow> filter (\<lambda>a. Alert.service a = k) (containerRule now entries)
                       = (if includes_str s ''Up '' then []
                          else [\<lparr>level = HIGH, service = k,
                                 message = ''Container '' @ k @ '' is not running: '' @ s,
                                 timestamp = toISOString now\<rparr>])"
    using containerRule_one [OF d] by blast
  from run containerRule_level each
  show "\<exists>pushed.
           generateAlerts cfg now results (Containers entries)
             = Inr (fold (resultAlerts cfg now) results [] @ pushed)
           \<and> list_all (\<lambda>a. level a = HIGH) pushed
           \<and> (\<forall>k s. (k, Some s) \<in> set entries
                 \<longrightarrow> filter (\<lambda>a. Alert.service a = k) pushed
                       = (if includes_str s ''Up '' then []
                          else [\<lparr>level = HIGH, service = k,
                                 message = ''Container '' @ k @ '' is not running: '' @ s,
                                 timestamp = toISOString now\<rparr>]))"
    by (intro exI [of _ "containerRule now entries"] conjI)
next
  show "generateAlerts cfg now []
         (Containers [(''web'', Some ''Up 2 hours''), (''db'', Some ''Exited (1) 3 minutes ago'')])
       = Inr [\<lparr>level = HIGH, service = ''db'',
               message = ''Container db is not running: Exited (1) 3 minutes ago'',
               timestamp = toISOString now\<rparr>]"
    by (simp add: generateAlerts_def)
qed

text \<open>The claim at the mapping of \<^verbatim>\<open>web\<close> and \<^verbatim>\<open>db\<close>.\<close>

theorem stopped_containers_raise_one_high_alert_witness:
  "list_all (\<lambda>e. snd e \<noteq> None)
     [(''web'', Some ''Up 2 hours''), (''db'', Some ''Exited (1) 3 minutes ago'')]
   \<and> distinct (map fst [(''web'', Some ''Up 2 hours''), (''db'', Some ''Exited (1) 3 minutes ago'')])
   \<and> (\<exists>pushed.
         generateAlerts config \<lparr>getTime = 5000, toISOString = ''2026-01-01T00:00:05.000Z''\<rparr> []
           (Containers [(''web'', Some ''Up 2 hours''), (''db'', Some ''Exited (1) 3 minutes ago'')])
           = Inr pushed
         \<and> filter (\<lambda>a. Alert.service a = ''web'') pushed = []
         \<and> filter (\<lambda>a. Alert.service a = ''db'') pushed
             = [\<lparr>level = HIGH, service = ''db'',
                 message = ''Container db is not running: Exited (1) 3 minutes ago'',
                 timestamp = ''2026-01-01T00:00:05.000Z''\<rparr>])"
proof -
  let ?entries = "[(''web'', Some ''Up 2 hours''), (''db'', Some ''Exited (1) 3 minutes ago'')]"
  let ?now = "\<lparr>getTime = 5000, toISOString = ''2026-01-01T00:00:05.000Z''\<rparr>"
  have h: "list_all (\<lambda>e. snd e \<noteq> None) ?entries \<and> distinct (map fst ?entries)"
    by simp
  have up: "includes_str ''Up 2 hours'' ''Up ''" by simp
  have down: "\<not> includes_str ''Exited (1) 3 minutes ago'' ''Up ''" by simp
  from stopped_containers_raise_one_high_alert [of ?entries config ?now "[]", THEN conjunct1, rule_format, OF h]
  obtain pushed where
    run: "generateAlerts config ?now [] (Containers ?entries) = Inr (fold (resultAlerts config ?now) [] [] @ pushed)"
    and each: "\<And>k s. (k, Some s) \<in> set ?entries
                 \<Longrightarrow> filter (\<lambda>a. Alert.service a = k) pushed
                       = (if includes_str s ''Up '' then []
                          else [\<lparr>level = HIGH, service = k,
                                 message = ''Container '' @ k @ '' is not running: '' @ s,
                                 timestamp = toISOString ?now\<rparr>])"
    by blast
  have web: "filter (\<lambda>a. Alert.service a = ''web'') pushed = []"
    using each [of "''web''" "''Up 2 hours''"] up by simp
  have db: "filter (\<lambda>a. Alert.service a = ''db'') pushed
             = [\<lparr>level = HIGH, service = ''db'',
                 message = ''Container db is not running: Exited (1) 3 minutes ago'',
                 timestamp = ''2026-01-01T00:00:05.000Z''\<rparr>]"
    using each [of "''db''" "''Exited (1) 3 minutes ago''"] down by simp
  from run have "generateAlerts config ?now [] (Containers ?entries) = Inr pushed" by simp
  with h web db show ?thesis by blast
qed

subsection \<open>The service mapping after a cycle\<close>

lemma fold_update_other:
  "k \<notin> ProbeResult.name ` set rs \<Longrightarrow>
   map_of (fold (\<lambda>result svcs. AList.update (ProbeResult.name result) result svcs) rs al) k
     = map_of al k"
  by (induction rs arbitrary: al) (simp_all add: update_conv')

lemma fold_update_named:
  "k \<in> ProbeResult.name ` set rs \<Longrightarrow>
   \<exists>r \<in> set rs. ProbeResult.name r = k
     \<and> map_of (fold (\<lambda>result svcs. AList.update (ProbeResult.name result) result svcs) rs al) k
         = Some r"
proof (induction rs arbitrary: al)
  case Nil
  then show ?case by simp
next
  case (Cons r rs)
  show ?case
  proof (cases "k \<in> ProbeResult.name ` set rs")
    case True
    from Cons.IH [OF True, of "AList.update (ProbeResult.name r) r al"] show ?thesis by auto
  next
    case False
    with Cons.prems have k: "ProbeResult.name r = k" by auto
    have "map_of (fold (\<lambda>result svcs. AList.update (ProbeResult.name result) result svcs) (r # rs) al) k
        = map_of (AList.update (ProbeResult.name r) r al) k"
      using fold_update_other [OF False] by simp
    also have "\<dots> = Some r" by (simp add: update_conv' k)
    finally show ?thesis using k by auto
  qed
qed

lemma fold_update_distinct:
  "distinct (map fst al) \<Longrightarrow>
   distinct (map fst (fold (\<lambda>result svcs. AList.update (ProbeResult.name result) result svcs) rs al))"
  by (induction rs arbitrary: al) (simp_all add: distinct_update)

lemma distinct_one_entry:
  "distinct (map fst al) \<Longrightarrow> map_of al k = Some v \<Longrightarrow>
   filter (\<lambda>e. fst e = k) al = [(k, v)]"
proof (induction al)
  case Nil
  then show ?case by simp
next
  case (Cons e al)
  obtain k' v' where e: "e = (k', v')" by (cases e)
  show ?case
  proof (cases "k' = k")
    case True
    with Cons.prems e have v: "v' = v" by simp
    from Cons.prems(1) e True have "k \<notin> fst ` set al" by simp
    then have "filter (\<lambda>e. fst e = k) al = []"
      by (auto simp: filter_empty_conv)
    with e True v show ?thesis by simp
  next
    case False
    with Cons.prems e have "map_of al k = Some v" "distinct (map fst al)" by simp_all
    with Cons.IH have "filter (\<lambda>e. fst e = k) al = [(k, v)]" by simp
    with e False show ?thesis by simp
  qed
qed

text \<open>
  Claim C2. When a cycle that started from a snapshot whose service mapping has each
  key once has completed, the service mapping of the new snapshot has, for every
  target of the configuration, exactly one entry under the name of the target; the
  result in that entry carries that name and is the result of a probe of this cycle.
\<close>

theorem cycle_leaves_one_entry_per_target:
  "runCheck cfg world before = Inr (after, file)
   \<and> distinct (map fst (Metrics.services before))
   \<longrightarrow> (\<forall>target \<in> set (Config.services cfg).
          \<exists>result.
            filter (\<lambda>e. fst e = ServiceTarget.name target) (Metrics.services after)
              = [(ServiceTarget.name target, result)]
            \<and> ProbeResult.name result = ServiceTarget.name target
            \<and> (\<exists>probed \<in> set (Config.services cfg).
                  result = checkService cfg probed (startTime world probed)
                             (firstCallback world probed)))"
proof (intro impI ballI)
  fix target
  assume h: "runCheck cfg world before = Inr (after, file)
      \<and> distinct (map fst (Metrics.services before))"
    and t: "target \<in> set (Config.services cfg)"
  define results where "results =
    map (\<lambda>service. checkService cfg service (startTime world service) (firstCallback world service))
      (Config.services cfg)"
  let ?merge = "fold (\<lambda>result svcs. AList.update (ProbeResult.name result) result svcs)"
  from h have after: "Metrics.services after = ?merge results (Metrics.services before)"
    by (auto simp add: runCheck_def Let_def results_def split: sum.splits)
  have "ProbeResult.name (checkService cfg target (startTime world target) (firstCallback world target))
      = ServiceTarget.name target"
    by (simp add: checkService_def split: Callback.splits)
  with t have "ServiceTarget.name target \<in> ProbeResult.name ` set results"
    unfolding results_def by force
  from fold_update_named [OF this, of "Metrics.services before"] obtain result where
    r: "result \<in> set results"
       "ProbeResult.name result = ServiceTarget.name target"
       "map_of (Metrics.services after) (ServiceTarget.name target) = Some result"
    unfolding after by blast
  from r(1) have probed: "\<exists>probed \<in> set (Config.services cfg).
      result = checkService cfg probed (startTime world probed) (firstCallback world probed)"
    unfolding results_def by auto
  from h have "distinct (map fst (Metrics.services after))"
    unfolding after by (simp add: fold_update_distinct)
  from distinct_one_entry [OF this r(3)] r(2) probed
  show "\<exists>result.
            filter (\<lambda>e. fst e = ServiceTarget.name target) (Metrics.services after)
              = [(ServiceTarget.name target, result)]
            \<and> ProbeResult.name result = ServiceTarget.name target
            \<and> (\<exists>probed \<in> set (Config.services cfg).
                  result = checkService cfg probed (startTime world probed)
                             (firstCallback world probed))"
    by blast
qed

subsection \<open>Saving and loading\<close>

lemma statusOfString_statusString: "statusOfString (statusString s) = Some s"
  by (cases s) (simp_all add: statusOfString_def)

lemma levelOfString_levelString: "levelOfString (levelString l) = Some l"
  by (cases l) (simp_all add: levelOfString_def)

lemma certificateOfJson_jsonOfCertificate: "certificateOfJson (jsonOfCertificate c) = Some c"
  by (simp add: certificateOfJson_def jsonOfCertificate_def required_def finished_def)

lemma alertOfJson_jsonOfAlert: "alertOfJson (jsonOfAlert a) = Some a"
  by (simp add: alertOfJson_def jsonOfAlert_def required_def finished_def asLevel_def
      levelOfString_levelString)

lemma asCertificateOrNull_jsonOfCertificate:
  "asCertificateOrNull (jsonOfCertificate c) = Some (Present c)"
proof -
  have "asCertificateOrNull (jsonOfCertificate c)
      = map_option Present (certificateOfJson (jsonOfCertificate c))"
    by (simp add: asCertificateOrNull_def jsonOfCertificate_def)
  then show ?thesis by (simp add: certificateOfJson_jsonOfCertificate)
qed

lemma asCertificateOrNull_JNull: "asCertificateOrNull JNull = Some Null"
  by (simp add: asCertificateOrNull_def)

lemma resultOfJson_jsonOfResult: "resultOfJson (jsonOfResult r) = Some r"
proof -
  obtain n u s c t ci e ts where r: "r = \<lparr>name = n, url = u, status = s, statusCode = c,
      responseTime = t, certificate = ci, error = e, timestamp = ts\<rparr>"
    by (cases r) auto
  show ?thesis
    unfolding r
    by (cases c; cases t; cases ci; cases e; cases ts)
      (simp_all add: resultOfJson_def jsonOfResult_def required_def optional_def finished_def
        unlessUndefined_def asStatus_def statusOfString_statusString
        asCertificateOrNull_jsonOfCertificate asCertificateOrNull_JNull)
qed


lemma membersOfJson_map:
  assumes "\<And>x. dec (enc x) = Some x"
  shows "membersOfJson dec (JObject (map (\<lambda>(k, x). (k, enc x)) al)) = Some al"
proof -
  have "those (map (\<lambda>(k, v). map_option (Pair k) (dec v)) (map (\<lambda>(k, x). (k, enc x)) al)) = Some al"
    by (induction al) (auto simp add: assms)
  then show ?thesis by (simp add: membersOfJson_def)
qed

lemma elementsOfJson_map:
  assumes "\<And>x. dec (enc x) = Some x"
  shows "elementsOfJson dec (JArray (map enc xs)) = Some xs"
proof -
  have "those (map dec (map enc xs)) = Some xs"
    by (induction xs) (auto simp add: assms)
  then show ?thesis by (simp add: elementsOfJson_def)
qed

lemma containers_roundtrip:
  assumes "list_all (\<lambda>e. snd e \<noteq> None) cs"
  shows "membersOfJson asContainerStatus (jsonOfContainers cs) = Some cs"
proof -
  from assms
  have "those (map (\<lambda>(k, v). map_option (Pair k) (asContainerStatus v))
          (concat (map (\<lambda>(k, st). unlessUndefined k JString st) cs))) = Some cs"
    by (induction cs) (auto simp add: unlessUndefined_def asContainerStatus_def)
  then show ?thesis by (simp add: membersOfJson_def jsonOfContainers_def)
qed

lemma metricsOfJson_jsonOfMetrics:
  assumes "storable m"
  shows "metricsOfJson (jsonOfMetrics m) = Some m"
proof -
  obtain lc sv al cs where m: "m = \<lparr>lastCheck = lc, services = sv, alerts = al, containerStatus = cs\<rparr>"
    by (cases m) auto
  have sv: "membersOfJson resultOfJson (JObject (map (\<lambda>(k, r). (k, jsonOfResult r)) sv)) = Some sv"
    by (rule membersOfJson_map) (rule resultOfJson_jsonOfResult)
  have al: "elementsOfJson alertOfJson (JArray (map jsonOfAlert al)) = Some al"
    by (rule elementsOfJson_map) (rule alertOfJson_jsonOfAlert)
  have lc: "asStringOrNull (case lc of None \<Rightarrow> JNull | Some t \<Rightarrow> JString t) = Some lc"
    by (cases lc) simp_all
  show ?thesis
  proof (cases cs)
    case None
    show ?thesis
      unfolding m None
      by (simp add: metricsOfJson_def jsonOfMetrics_def required_def optional_def finished_def
          unlessUndefined_def sv al lc)
  next
    case (Some entries)
    with assms m have "list_all (\<lambda>e. snd e \<noteq> None) entries" by (simp add: storable_def)
    then have cs: "membersOfJson asContainerStatus (jsonOfContainers entries) = Some entries"
      by (rule containers_roundtrip)
    show ?thesis
      unfolding m Some
      by (simp add: metricsOfJson_def jsonOfMetrics_def required_def optional_def finished_def
          unlessUndefined_def sv al lc cs)
  qed
qed

lemma load_save: "storable m \<Longrightarrow> load (save m) = Snapshot m"
  by (simp add: save_def metricsOfJson_jsonOfMetrics)

lemma containerAlerts_Inr_defined:
  "containerAlerts now entries acc = Inr out \<Longrightarrow> list_all (\<lambda>e. snd e \<noteq> None) entries"
proof (induction entries arbitrary: acc)
  case Nil
  show ?case by simp
next
  case (Cons e entries)
  obtain k st where e: "e = (k, st)" by (cases e)
  show ?case
  proof (cases st)
    case None
    with Cons.prems e show ?thesis by simp
  next
    case (Some s)
    with Cons.prems e obtain acc' where "containerAlerts now entries acc' = Inr out"
      by (simp split: if_splits)
    with Cons.IH have "list_all (\<lambda>e. snd e \<noteq> None) entries" by blast
    with e Some show ?thesis by simp
  qed
qed

lemma generateAlerts_Inr_defined:
  assumes "generateAlerts cfg now rs inspection = Inr out"
  shows "case containers inspection of None \<Rightarrow> True
         | Some cs \<Rightarrow> list_all (\<lambda>e. snd e \<noteq> None) cs"
proof (cases inspection)
  case (InspectionError msg)
  then show ?thesis by simp
next
  case (Containers cs)
  with assms have "containerAlerts now cs (fold (resultAlerts cfg now) rs []) = Inr out"
    by (simp add: generateAlerts_def)
  then have "list_all (\<lambda>e. snd e \<noteq> None) cs" by (rule containerAlerts_Inr_defined)
  with Containers show ?thesis by simp
qed

lemma runCheck_Inr:
  assumes "runCheck cfg world before = Inr (after, file)"
  shows "file = save after" and "storable after"
proof -
  let ?results = "map (\<lambda>service. checkService cfg service (startTime world service)
                   (firstCallback world service)) (Config.services cfg)"
  let ?inspection = "checkContainers (dockerPs world)"
  from assms obtain out where
    gen: "generateAlerts cfg (alertTime world) ?results ?inspection = Inr out"
    by (auto simp add: runCheck_def Let_def split: sum.splits)
  with assms have after: "after = before
                      \<lparr>lastCheck := Some (toISOString (checkTime world)),
                       services :=
                         fold (\<lambda>result svcs. AList.update (ProbeResult.name result) result svcs)
                           ?results (Metrics.services before),
                       containerStatus := containers ?inspection,
                       alerts := out\<rparr>"
    and written: "file = save after"
    by (auto simp add: runCheck_def Let_def)
  show "file = save after" by (rule written)
  from generateAlerts_Inr_defined [OF gen] show "storable after"
    by (simp add: after storable_def)
qed

lemma runCheck_completes:
  assumes "case containers (checkContainers (dockerPs world)) of None \<Rightarrow> True
           | Some cs \<Rightarrow> list_all (\<lambda>e. snd e \<noteq> None) cs"
  shows "\<exists>after. runCheck cfg world before = Inr (after, save after)"
proof -
  let ?results = "map (\<lambda>service. checkService cfg service (startTime world service)
                   (firstCallback world service)) (Config.services cfg)"
  have "\<exists>out. generateAlerts cfg (alertTime world) ?results (checkContainers (dockerPs world)) = Inr out"
  proof (cases "checkContainers (dockerPs world)")
    case (InspectionError msg)
    then show ?thesis by (simp add: generateAlerts_def)
  next
    case (Containers cs)
    with assms have "list_all (\<lambda>e. snd e \<noteq> None) cs" by simp
    from containerAlerts_defined [OF this] Containers show ?thesis
      by (simp add: generateAlerts_def)
  qed
  then obtain out where
    "generateAlerts cfg (alertTime world) ?results (checkContainers (dockerPs world)) = Inr out"
    by blast
  then show ?thesis by (simp add: runCheck_def Let_def)
qed

text \<open>The claim at the first cycle of the configuration, every probe timing out.\<close>

theorem cycle_leaves_one_entry_per_target_witness:
  "\<exists>after file.
     runCheck config
       \<lparr>firstCallback = (\<lambda>target. TimerFired), startTime = (\<lambda>target. 0),
        dockerPs = ExecError ''Cannot connect to the Docker daemon'',
        alertTime = \<lparr>getTime = 5000, toISOString = ''2026-01-01T00:00:05.000Z''\<rparr>,
        checkTime = \<lparr>getTime = 5001, toISOString = ''2026-01-01T00:00:05.001Z''\<rparr>\<rparr>
       initialMetrics = Inr (after, file)
     \<and> distinct (map fst (Metrics.services initialMetrics))
     \<and> (\<exists>result. filter (\<lambda>e. fst e = ''NASA App'') (Metrics.services after)
                     = [(''NASA App'', result)]
                   \<and> ProbeResult.name result = ''NASA App'')"
proof -
  let ?world = "\<lparr>firstCallback = (\<lambda>target. TimerFired), startTime = (\<lambda>target. 0),
        dockerPs = ExecError ''Cannot connect to the Docker daemon'',
        alertTime = \<lparr>getTime = 5000, toISOString = ''2026-01-01T00:00:05.000Z''\<rparr>,
        checkTime = \<lparr>getTime = 5001, toISOString = ''2026-01-01T00:00:05.001Z''\<rparr>\<rparr>"
  let ?target = "\<lparr>ServiceTarget.name = ''NASA App'',
        url = ''https://majortomtogroundcontrol.duckdns.org'',
        expectedStatus = 200, timeout = 5000\<rparr>"
  have "case containers (checkContainers (dockerPs ?world)) of None \<Rightarrow> True
           | Some cs \<Rightarrow> list_all (\<lambda>e. snd e \<noteq> None) cs"
    by simp
  from runCheck_completes [OF this, of config initialMetrics] obtain after where
    run: "runCheck config ?world initialMetrics = Inr (after, save after)" by blast
  have d: "distinct (map fst (Metrics.services initialMetrics))"
    by (simp add: initialMetrics_def)
  have t: "?target \<in> set (Config.services config)" by (simp add: config_def)
  from cycle_leaves_one_entry_per_target [of config ?world initialMetrics after "save after", rule_format, OF conjI [OF run d] t]
  have "\<exists>result. filter (\<lambda>e. fst e = ''NASA App'') (Metrics.services after)
                     = [(''NASA App'', result)]
                   \<and> ProbeResult.name result = ''NASA App''"
    by auto
  with run d show ?thesis by blast
qed

text \<open>
  A cycle completes, and writes the snapshot it returns, when the inspection failed and
  when every line of the listing includes \<^verbatim>\<open>: \<close>. It keeps each key of the service
  mapping once.
\<close>

lemma cycle_completes_on_failed_inspection:
  assumes "dockerPs world = ExecError msg"
  shows "\<exists>after. runCheck cfg world before = Inr (after, save after)"
proof (rule runCheck_completes)
  show "case containers (checkContainers (dockerPs world)) of None \<Rightarrow> True
        | Some cs \<Rightarrow> list_all (\<lambda>e. snd e \<noteq> None) cs"
    by (simp add: assms)
qed

lemma cycle_completes_on_listing:
  assumes out: "dockerPs world = ExecOutput out"
    and lines: "list_all (\<lambda>line. includes_str line '': '') (split (trim out) [CHR 0x0A])"
  shows "\<exists>after. runCheck cfg world before = Inr (after, save after)"
proof (rule runCheck_completes)
  have "list_all (\<lambda>e. snd e \<noteq> None) (fold addLine (split (trim out) [CHR 0x0A]) [])"
    using lines by (rule fold_addLine_defined) simp
  then show "case containers (checkContainers (dockerPs world)) of None \<Rightarrow> True
        | Some cs \<Rightarrow> list_all (\<lambda>e. snd e \<noteq> None) cs"
    by (simp add: out)
qed

lemma runCheck_distinct:
  assumes "runCheck cfg world before = Inr (after, file)"
    and "distinct (map fst (Metrics.services before))"
  shows "distinct (map fst (Metrics.services after))"
proof -
  from assms(1) have "Metrics.services after
      = fold (\<lambda>result svcs. AList.update (ProbeResult.name result) result svcs)
          (map (\<lambda>service. checkService cfg service (startTime world service)
                  (firstCallback world service)) (Config.services cfg))
          (Metrics.services before)"
    by (auto simp add: runCheck_def Let_def split: sum.splits)
  with assms(2) show ?thesis by (simp add: fold_update_distinct)
qed

lemma initialMetrics_distinct: "distinct (map fst (Metrics.services initialMetrics))"
  by (simp add: initialMetrics_def)

lemma initialMetrics_storable: "storable initialMetrics"
  by (simp add: initialMetrics_def storable_def)

lemma checkContainers_blank: "checkContainers (ExecOutput '''') = Containers [('''', None)]"
proof -
  have t: "trim '''' = ''''" by (simp add: trim_def)
  have lines: "split '''' [CHR 0x0A] = ['''']" by (simp add: split.simps)
  have pieces: "split '''' '': '' = ['''']" by (simp add: split.simps)
  have "addLine '''' [] = [('''', None)]" by (simp add: addLine_def pieces)
  then show ?thesis by (simp add: t lines)
qed

text \<open>
  Claim C6. With the metrics file absent or unparseable, the script starts from the
  initial snapshot. The first cycle does not complete when \<^verbatim>\<open>docker ps\<close> prints
  nothing: the empty output is read as one container with the empty name and an
  \<^verbatim>\<open>undefined\<close> status, on which \<^verbatim>\<open>generateAlerts\<close> throws, so that nothing is
  assigned to the snapshot and nothing is written.
\<close>

theorem first_cycle_aborts_on_empty_listing:
  "load Absent = Snapshot initialMetrics
   \<and> load Unparseable = Snapshot initialMetrics
   \<and> runCheck cfg (world\<lparr>dockerPs := ExecOutput ''''\<rparr>) initialMetrics
       = Inl (TypeError ''Cannot read properties of undefined (reading 'includes')'')"
  by (simp add: runCheck_def generateAlerts_def checkContainers_blank del: checkContainers.simps)

text \<open>
  Claim C7. Loading the file that \<^verbatim>\<open>save\<close> wrote for a storable snapshot gives that
  snapshot back; and when a cycle has completed, the file it wrote is the saved new
  snapshot, and loading it gives the new snapshot back.
\<close>

theorem load_after_save_reproduces_snapshot:
  "(storable snapshot \<longrightarrow> load (save snapshot) = Snapshot snapshot)
   \<and> (runCheck cfg world before = Inr (after, file)
      \<longrightarrow> file = save after \<and> load file = Snapshot after)"
proof (intro conjI impI)
  assume "storable snapshot"
  then show "load (save snapshot) = Snapshot snapshot" by (rule load_save)
next
  assume run: "runCheck cfg world before = Inr (after, file)"
  then show "file = save after" by (rule runCheck_Inr)
  from run have "storable after" by (rule runCheck_Inr)
  then have "load (save after) = Snapshot after" by (rule load_save)
  with runCheck_Inr(1) [OF run] show "load file = Snapshot after" by simp
qed

text \<open>The claim at a snapshot with one service, one alert and two containers, and at a first cycle.\<close>

theorem load_after_save_reproduces_snapshot_witness:
  "storable
     \<lparr>lastCheck = Some ''2026-01-01T00:00:05.001Z'',
      services =
        [(''NASA App'',
          \<lparr>name = ''NASA App'', url = ''https://majortomtogroundcontrol.duckdns.org'',
           status = HEALTHY, statusCode = Some 200, responseTime = Some 120,
           certificate = Null, error = None, timestamp = Some ''2026-01-01T00:00:00.120Z''\<rparr>)],
      alerts =
        [\<lparr>level = HIGH, service = ''db'',
          message = ''Container db is not running: Exited (1) 3 minutes ago'',
          timestamp = ''2026-01-01T00:00:05.000Z''\<rparr>],
      containerStatus = Some [(''web'', Some ''Up 2 hours''), (''db'', Some ''Exited (1) 3 minutes ago'')]\<rparr>
   \<and> load (save
     \<lparr>lastCheck = Some ''2026-01-01T00:00:05.001Z'',
      services =
        [(''NASA App'',
          \<lparr>name = ''NASA App'', url = ''https://majortomtogroundcontrol.duckdns.org'',
           status = HEALTHY, statusCode = Some 200, responseTime = Some 120,
           certificate = Null, error = None, timestamp = Some ''2026-01-01T00:00:00.120Z''\<rparr>)],
      alerts =
        [\<lparr>level = HIGH, service = ''db'',
          message = ''Container db is not running: Exited (1) 3 minutes ago'',
          timestamp = ''2026-01-01T00:00:05.000Z''\<rparr>],
      containerStatus = Some [(''web'', Some ''Up 2 hours''), (''db'', Some ''Exited (1) 3 minutes ago'')]\<rparr>)
     = Snapshot
     \<lparr>lastCheck = Some ''2026-01-01T00:00:05.001Z'',
      services =
        [(''NASA App'',
          \<lparr>name = ''NASA App'', url = ''https://majortomtogroundcontrol.duckdns.org'',
           status = HEALTHY, statusCode = Some 200, responseTime = Some 120,
           certificate = Null, error = None, timestamp = Some ''2026-01-01T00:00:00.120Z''\<rparr>)],
      alerts =
        [\<lparr>level = HIGH, service = ''db'',
          message = ''Container db is not running: Exited (1) 3 minutes ago'',
          timestamp = ''2026-01-01T00:00:05.000Z''\<rparr>],
      containerStatus = Some [(''web'', Some ''Up 2 hours''), (''db'', Some ''Exited (1) 3 minutes ago'')]\<rparr>
   \<and> (\<exists>after file.
         runCheck config
           \<lparr>firstCallback = (\<lambda>target. TimerFired), startTime = (\<lambda>target. 0),
            dockerPs = ExecError ''Cannot connect to the Docker daemon'',
            alertTime = \<lparr>getTime = 5000, toISOString = ''2026-01-01T00:00:05.000Z''\<rparr>,
            checkTime = \<lparr>getTime = 5001, toISOString = ''2026-01-01T00:00:05.001Z''\<rparr>\<rparr>
           initialMetrics = Inr (after, file)
         \<and> load file = Snapshot after)"
proof -
  let ?m = "\<lparr>lastCheck = Some ''2026-01-01T00:00:05.001Z'',
      services =
        [(''NASA App'',
          \<lparr>name = ''NASA App'', url = ''https://majortomtogroundcontrol.duckdns.org'',
           status = HEALTHY, statusCode = Some 200, responseTime = Some 120,
           certificate = Null, error = None, timestamp = Some ''2026-01-01T00:00:00.120Z''\<rparr>)],
      alerts =
        [\<lparr>level = HIGH, service = ''db'',
          message = ''Container db is not running: Exited (1) 3 minutes ago'',
          timestamp = ''2026-01-01T00:00:05.000Z''\<rparr>],
      containerStatus = Some [(''web'', Some ''Up 2 hours''), (''db'', Some ''Exited (1) 3 minutes ago'')]\<rparr>"
  let ?world = "\<lparr>firstCallback = (\<lambda>target. TimerFired), startTime = (\<lambda>target. 0),
        dockerPs = ExecError ''Cannot connect to the Docker daemon'',
        alertTime = \<lparr>getTime = 5000, toISOString = ''2026-01-01T00:00:05.000Z''\<rparr>,
        checkTime = \<lparr>getTime = 5001, toISOString = ''2026-01-01T00:00:05.001Z''\<rparr>\<rparr>"
  have s: "storable ?m" by (simp add: storable_def)
  from load_after_save_reproduces_snapshot [of ?m, THEN conjunct1, rule_format, OF s]
  have one: "load (save ?m) = Snapshot ?m" .
  have "case containers (checkContainers (dockerPs ?world)) of None \<Rightarrow> True
           | Some cs \<Rightarrow> list_all (\<lambda>e. snd e \<noteq> None) cs"
    by simp
  from runCheck_completes [OF this, of config initialMetrics] obtain after where
    run: "runCheck config ?world initialMetrics = Inr (after, save after)" by blast
  from load_after_save_reproduces_snapshot [of ?m config ?world initialMetrics after "save after", THEN conjunct2, rule_format, OF run]
  have two: "load (save after) = Snapshot after" by simp
  from s one run two show ?thesis by blast
qed

subsection \<open>What the engine returns\<close>

text \<open>
  When the inspection is usable, \<^verbatim>\<open>generateAlerts\<close> returns the alerts of the loop
  bodies, those of the services before those of the containers. On the empty output of
  \<^verbatim>\<open>docker ps\<close> it throws at \<^verbatim>\<open>status.includes\<close>, after the loop over the services
  has pushed its alerts, and returns nothing.
\<close>

lemma generateAlerts_usable:
  assumes "usable inspection"
  shows "generateAlerts cfg now rs inspection
         = Inr (concat (map (\<lambda>r. resultAlerts cfg now r []) rs)
                @ (case containers inspection of None \<Rightarrow> [] | Some cs \<Rightarrow> containerRule now cs))"
proof (cases inspection)
  case (InspectionError msg)
  then show ?thesis by (simp add: generateAlerts_def fold_resultAlerts)
next
  case (Containers cs)
  with assms have "list_all (\<lambda>e. snd e \<noteq> None) cs" by (simp add: usable_def)
  from containerAlerts_defined [OF this] Containers show ?thesis
    by (simp add: generateAlerts_def fold_resultAlerts)
qed

lemma generateAlerts_emits:
  assumes "usable inspection" and "r \<in> set rs" and "a \<in> set (resultAlerts cfg now r [])"
  shows "\<exists>out. generateAlerts cfg now rs inspection = Inr out \<and> a \<in> set out"
proof -
  from assms(2,3) have "a \<in> set (concat (map (\<lambda>r. resultAlerts cfg now r []) rs))" by auto
  then have "a \<in> set (concat (map (\<lambda>r. resultAlerts cfg now r []) rs)
                @ (case containers inspection of None \<Rightarrow> [] | Some cs \<Rightarrow> containerRule now cs))"
    by simp
  with generateAlerts_usable [OF assms(1)] show ?thesis by blast
qed

lemma generateAlerts_alone:
  "generateAlerts cfg now [r] (InspectionError msg) = Inr (resultAlerts cfg now r [])"
  by (simp add: generateAlerts_def)

lemma generateAlerts_empty_listing:
  "generateAlerts cfg now rs (checkContainers (ExecOutput ''''))
     = Inl (TypeError ''Cannot read properties of undefined (reading 'includes')'')"
  by (simp add: generateAlerts_def checkContainers_blank del: checkContainers.simps)

lemma usable_failed: "usable (InspectionError msg)"
  by (simp add: usable_def)

lemma not_usable_empty_listing: "\<not> usable (checkContainers (ExecOutput ''''))"
  by (simp add: usable_def checkContainers_blank del: checkContainers.simps)

lemma filter_member: "filter P xs = [a] \<Longrightarrow> a \<in> set xs"
  by (metis filter_is_subset list.set_intros(1) subsetD)

text \<open>
  Claim C1. A probe whose timer runs first resolves with status \<open>TIMEOUT\<close> and a
  response time of the threshold plus one; the loop body pushes exactly one \<open>MEDIUM\<close>
  alert for it, the response-time alert, and \<^verbatim>\<open>generateAlerts\<close> returns a list holding
  that alert whenever the inspection failed or every container status is a string. When
  \<^verbatim>\<open>docker ps\<close> prints nothing, \<^verbatim>\<open>generateAlerts\<close> throws and the alert is lost with
  every other alert of the cycle.
\<close>

theorem timeout_alert_lost_on_empty_listing:
  "let result = checkService cfg target started TimerFired;
       threshold = Thresholds.responseTime (thresholds cfg);
       slow = \<lparr>level = MEDIUM,
               service = ServiceTarget.name target,
               message = ServiceTarget.name target @ '' response time (''
                 @ numberToString (threshold + 1) @ ''ms) exceeds threshold (''
                 @ numberToString threshold @ ''ms)'',
               timestamp = toISOString now\<rparr>
   in status result = TIMEOUT
      \<and> ProbeResult.responseTime result = Some (threshold + 1)
      \<and> filter (\<lambda>a. level a = MEDIUM) (resultAlerts cfg now result []) = [slow]
      \<and> (\<forall>results inspection.
            result \<in> set results \<and> usable inspection
            \<longrightarrow> (\<exists>out. generateAlerts cfg now results inspection = Inr out \<and> slow \<in> set out))
      \<and> (\<forall>results.
            generateAlerts cfg now results (checkContainers (ExecOutput ''''))
              = Inl (TypeError ''Cannot read properties of undefined (reading 'includes')''))"
proof -
  define result where "result = checkService cfg target started TimerFired"
  define threshold where "threshold = Thresholds.responseTime (thresholds cfg)"
  define slow where "slow = \<lparr>level = MEDIUM,
               service = ServiceTarget.name target,
               message = ServiceTarget.name target @ '' response time (''
                 @ numberToString (threshold + 1) @ ''ms) exceeds threshold (''
                 @ numberToString threshold @ ''ms)'',
               timestamp = toISOString now\<rparr>"
  have st: "status result = TIMEOUT"
    and rt: "ProbeResult.responseTime result = Some (threshold + 1)"
    by (simp_all add: result_def threshold_def checkService_def)
  have own: "resultAlerts cfg now result [] =
      [\<lparr>level = HIGH, service = ServiceTarget.name target,
        message = ServiceTarget.name target @ '' is TIMEOUT: Request timed out'',
        timestamp = toISOString now\<rparr>, slow]"
    by (simp add: result_def threshold_def slow_def checkService_def resultAlerts_def
        errorOrStatusCode_def)
  have medium: "filter (\<lambda>a. level a = MEDIUM) (resultAlerts cfg now result []) = [slow]"
    by (simp add: own slow_def)
  have pushed: "slow \<in> set (resultAlerts cfg now result [])"
    by (simp only: own list.set insert_iff simp_thms)
  have engine: "\<exists>out. generateAlerts cfg now results inspection = Inr out \<and> slow \<in> set out"
    if "result \<in> set results \<and> usable inspection" for results inspection
  proof -
    from that have u: "usable inspection" and r: "result \<in> set results" by simp_all
    from u r pushed show ?thesis by (rule generateAlerts_emits)
  qed
  have lost: "generateAlerts cfg now results (checkContainers (ExecOutput ''''))
              = Inl (TypeError ''Cannot read properties of undefined (reading 'includes')'')"
    for results
    by (rule generateAlerts_empty_listing)
  show ?thesis
    unfolding Let_def
    using st rt medium engine lost
    unfolding result_def threshold_def slow_def by blast
qed

text \<open>
  The claim at the NASA App target timing out: the alert is returned when the inspection
  failed, and lost when the listing is empty.
\<close>

theorem timeout_alert_lost_on_empty_listing_witness:
  "usable (InspectionError ''docker: not found'')
   \<and> (\<exists>out.
         generateAlerts config \<lparr>getTime = 0, toISOString = ''2026-01-01T00:00:00.000Z''\<rparr>
           [checkService config
              \<lparr>ServiceTarget.name = ''NASA App'', url = ''https://majortomtogroundcontrol.duckdns.org'',
               expectedStatus = 200, timeout = 5000\<rparr> 0 TimerFired]
           (InspectionError ''docker: not found'') = Inr out
         \<and> \<lparr>level = MEDIUM, service = ''NASA App'',
             message = ''NASA App response time (1501ms) exceeds threshold (1500ms)'',
             timestamp = ''2026-01-01T00:00:00.000Z''\<rparr> \<in> set out)
   \<and> generateAlerts config \<lparr>getTime = 0, toISOString = ''2026-01-01T00:00:00.000Z''\<rparr>
         [checkService config
            \<lparr>ServiceTarget.name = ''NASA App'', url = ''https://majortomtogroundcontrol.duckdns.org'',
             expectedStatus = 200, timeout = 5000\<rparr> 0 TimerFired]
         (checkContainers (ExecOutput ''''))
       = Inl (TypeError ''Cannot read properties of undefined (reading 'includes')'')"
proof -
  let ?now = "\<lparr>getTime = 0, toISOString = ''2026-01-01T00:00:00.000Z''\<rparr>"
  let ?target = "\<lparr>ServiceTarget.name = ''NASA App'', url = ''https://majortomtogroundcontrol.duckdns.org'',
           expectedStatus = 200, timeout = 5000\<rparr>"
  let ?result = "checkService config ?target 0 TimerFired"
  let ?slow = "\<lparr>level = MEDIUM, service = ''NASA App'',
             message = ''NASA App response time (1501ms) exceeds threshold (1500ms)'',
             timestamp = ''2026-01-01T00:00:00.000Z''\<rparr>"
  have u: "usable (InspectionError ''docker: not found'')" by (rule usable_failed)
  have thr: "Thresholds.responseTime (thresholds config) = 1500"
    by (simp add: config_def)
  from timeout_alert_lost_on_empty_listing [of config ?target 0 ?now]
  have all: "(\<forall>results inspection.
          ?result \<in> set results \<and> usable inspection
          \<longrightarrow> (\<exists>out. generateAlerts config ?now results inspection = Inr out \<and> ?slow \<in> set out))
      \<and> (\<forall>results.
            generateAlerts config ?now results (checkContainers (ExecOutput ''''))
              = Inl (TypeError ''Cannot read properties of undefined (reading 'includes')''))"
    by (simp add: Let_def thr numberToString_1500 numberToString_1501)
  from all have emitted: "?result \<in> set [?result] \<and> usable (InspectionError ''docker: not found'')
      \<longrightarrow> (\<exists>out. generateAlerts config ?now [?result] (InspectionError ''docker: not found'') = Inr out
            \<and> ?slow \<in> set out)"
    by blast
  from all have lost: "generateAlerts config ?now [?result] (checkContainers (ExecOutput ''''))
              = Inl (TypeError ''Cannot read properties of undefined (reading 'includes')'')"
    by blast
  from emitted u have "\<exists>out. generateAlerts config ?now [?result] (InspectionError ''docker: not found'') = Inr out
            \<and> ?slow \<in> set out"
    by simp
  with u lost show ?thesis by blast
qed

text \<open>
  Claim C3. For a result with status \<open>ERROR\<close>, \<open>UNHEALTHY\<close> or \<open>TIMEOUT\<close> the loop
  body pushes exactly one \<open>HIGH\<close> alert for the service with the message
  \<^verbatim>\<open>{name} is {status}: {error || statusCode}\<close>, where the last part is the error
  message when there is a non-empty one and the printed status code when there is no
  error; \<^verbatim>\<open>generateAlerts\<close> returns a list holding that alert whenever the inspection
  failed or every container status is a string, and exactly the alerts of the loop body
  for one result and a failed inspection. A response with code 404 where 200 is expected
  resolves \<open>UNHEALTHY\<close>, and the engine then returns exactly one \<open>HIGH\<close> alert for the
  service ending in \<open>404\<close>. When \<^verbatim>\<open>docker ps\<close> prints nothing, \<^verbatim>\<open>generateAlerts\<close>
  throws and the alert is lost.
\<close>

theorem status_alert_lost_on_empty_listing:
  "(status result = ERROR \<or> status result = UNHEALTHY \<or> status result = TIMEOUT
     \<longrightarrow> filter (\<lambda>a. level a = HIGH \<and> Alert.service a = ProbeResult.name result
                  \<and> message a = ProbeResult.name result @ '' is '' @ statusString (status result)
                       @ '': '' @ errorOrStatusCode result)
           (resultAlerts cfg now result [])
         = [\<lparr>level = HIGH, service = ProbeResult.name result,
             message = ProbeResult.name result @ '' is '' @ statusString (status result)
                       @ '': '' @ errorOrStatusCode result,
             timestamp = toISOString now\<rparr>]
         \<and> (\<forall>results inspection.
               result \<in> set results \<and> usable inspection
               \<longrightarrow> (\<exists>out. generateAlerts cfg now results inspection = Inr out
                     \<and> \<lparr>level = HIGH, service = ProbeResult.name result,
                         message = ProbeResult.name result @ '' is ''
                           @ statusString (status result) @ '': '' @ errorOrStatusCode result,
                         timestamp = toISOString now\<rparr> \<in> set out)))
   \<and> (error result = Some e \<and> e \<noteq> [] \<longrightarrow> errorOrStatusCode result = e)
   \<and> (error result = None \<and> ProbeResult.statusCode result = Some c
      \<longrightarrow> errorOrStatusCode result = numberToString c)
   \<and> (\<forall>failure. generateAlerts cfg now [result] (InspectionError failure)
                   = Inr (resultAlerts cfg now result []))
   \<and> (IncomingMessage.statusCode res = 404 \<and> expectedStatus target = 200
     \<longrightarrow> (let r = checkService cfg target started (Response res at)
          in status r = UNHEALTHY
             \<and> (\<forall>failure. \<exists>out.
                   generateAlerts cfg now [r] (InspectionError failure) = Inr out
                   \<and> filter (\<lambda>a. level a = HIGH \<and> Alert.service a = ServiceTarget.name target
                               \<and> message a = ServiceTarget.name target @ '' is UNHEALTHY: 404'')
                        out
                      = [\<lparr>level = HIGH, service = ServiceTarget.name target,
                          message = ServiceTarget.name target @ '' is UNHEALTHY: 404'',
                          timestamp = toISOString now\<rparr>])))
   \<and> (\<forall>results.
         generateAlerts cfg now results (checkContainers (ExecOutput ''''))
           = Inl (TypeError ''Cannot read properties of undefined (reading 'includes')''))"
proof (intro conjI impI allI)
  assume bad: "status result = ERROR \<or> status result = UNHEALTHY \<or> status result = TIMEOUT"
  let ?alert = "\<lparr>level = HIGH, service = ProbeResult.name result,
             message = ProbeResult.name result @ '' is '' @ statusString (status result)
                       @ '': '' @ errorOrStatusCode result,
             timestamp = toISOString now\<rparr>"
  from bad show one: "filter (\<lambda>a. level a = HIGH \<and> Alert.service a = ProbeResult.name result
                  \<and> message a = ProbeResult.name result @ '' is '' @ statusString (status result)
                       @ '': '' @ errorOrStatusCode result)
           (resultAlerts cfg now result []) = [?alert]"
    by (rule status_alert_alone)
  then have own: "?alert \<in> set (resultAlerts cfg now result [])" by (rule filter_member)
  fix results inspection
  assume "result \<in> set results \<and> usable inspection"
  then have u: "usable inspection" and r: "result \<in> set results" by simp_all
  from u r own show "\<exists>out. generateAlerts cfg now results inspection = Inr out \<and> ?alert \<in> set out"
    by (rule generateAlerts_emits)
next
  assume "error result = Some e \<and> e \<noteq> []"
  then show "errorOrStatusCode result = e" by (simp add: errorOrStatusCode_def)
next
  assume "error result = None \<and> ProbeResult.statusCode result = Some c"
  then show "errorOrStatusCode result = numberToString c" by (simp add: errorOrStatusCode_def)
next
  fix failure
  show "generateAlerts cfg now [result] (InspectionError failure)
      = Inr (resultAlerts cfg now result [])"
    by (rule generateAlerts_alone)
next
  assume h: "IncomingMessage.statusCode res = 404 \<and> expectedStatus target = 200"
  define r where "r = checkService cfg target started (Response res at)"
  have st: "status r = UNHEALTHY" using h by (simp add: r_def checkService_def)
  have nm: "ProbeResult.name r = ServiceTarget.name target" by (simp add: r_def checkService_def)
  have code: "errorOrStatusCode r = ''404''"
    using h by (simp add: r_def checkService_def errorOrStatusCode_def numberToString_404)
  from st have "status r = ERROR \<or> status r = UNHEALTHY \<or> status r = TIMEOUT" by simp
  from status_alert_alone [OF this, of cfg now]
  have one: "filter (\<lambda>a. level a = HIGH \<and> Alert.service a = ServiceTarget.name target
                         \<and> message a = ServiceTarget.name target @ '' is UNHEALTHY: 404'')
                  (resultAlerts cfg now r [])
                = [\<lparr>level = HIGH, service = ServiceTarget.name target,
                    message = ServiceTarget.name target @ '' is UNHEALTHY: 404'',
                    timestamp = toISOString now\<rparr>]"
    by (simp add: st nm code)
  have "\<forall>failure. \<exists>out.
                   generateAlerts cfg now [r] (InspectionError failure) = Inr out
                   \<and> filter (\<lambda>a. level a = HIGH \<and> Alert.service a = ServiceTarget.name target
                               \<and> message a = ServiceTarget.name target @ '' is UNHEALTHY: 404'')
                        out
                      = [\<lparr>level = HIGH, service = ServiceTarget.name target,
                          message = ServiceTarget.name target @ '' is UNHEALTHY: 404'',
                          timestamp = toISOString now\<rparr>]"
    using one generateAlerts_alone [of cfg now r] by blast
  with st show "let r = checkService cfg target started (Response res at)
          in status r = UNHEALTHY
             \<and> (\<forall>failure. \<exists>out.
                   generateAlerts cfg now [r] (InspectionError failure) = Inr out
                   \<and> filter (\<lambda>a. level a = HIGH \<and> Alert.service a = ServiceTarget.name target
                               \<and> message a = ServiceTarget.name target @ '' is UNHEALTHY: 404'')
                        out
                      = [\<lparr>level = HIGH, service = ServiceTarget.name target,
                          message = ServiceTarget.name target @ '' is UNHEALTHY: 404'',
                          timestamp = toISOString now\<rparr>])"
    unfolding r_def Let_def by blast
next
  fix results
  show "generateAlerts cfg now results (checkContainers (ExecOutput ''''))
           = Inl (TypeError ''Cannot read properties of undefined (reading 'includes')'')"
    by (rule generateAlerts_empty_listing)
qed

text \<open>
  The claim at the Traefik Dashboard target answering 404, and refusing the connection.
\<close>

theorem status_alert_lost_on_empty_listing_witness:
  "status (checkService config
       \<lparr>ServiceTarget.name = ''Traefik Dashboard'',
        url = ''https://traefik.propertyapp.duckdns.org/dashboard/'',
        expectedStatus = 200, timeout = 5000\<rparr> 0
       (Response \<lparr>statusCode = 404, peerCertificate = None\<rparr>
          \<lparr>getTime = 120, toISOString = ''2026-01-01T00:00:00.120Z''\<rparr>)) = UNHEALTHY
   \<and> (\<exists>out.
         generateAlerts config \<lparr>getTime = 5000, toISOString = ''2026-01-01T00:00:05.000Z''\<rparr>
           [checkService config
              \<lparr>ServiceTarget.name = ''Traefik Dashboard'',
               url = ''https://traefik.propertyapp.duckdns.org/dashboard/'',
               expectedStatus = 200, timeout = 5000\<rparr> 0
              (Response \<lparr>statusCode = 404, peerCertificate = None\<rparr>
                 \<lparr>getTime = 120, toISOString = ''2026-01-01T00:00:00.120Z''\<rparr>)]
           (InspectionError ''docker: not found'') = Inr out
         \<and> filter (\<lambda>a. level a = HIGH \<and> Alert.service a = ''Traefik Dashboard''
                      \<and> message a = ''Traefik Dashboard is UNHEALTHY: 404'') out
             = [\<lparr>level = HIGH, service = ''Traefik Dashboard'',
                 message = ''Traefik Dashboard is UNHEALTHY: 404'',
                 timestamp = ''2026-01-01T00:00:05.000Z''\<rparr>])
   \<and> errorOrStatusCode (checkService config
       \<lparr>ServiceTarget.name = ''Traefik Dashboard'',
        url = ''https://traefik.propertyapp.duckdns.org/dashboard/'',
        expectedStatus = 200, timeout = 5000\<rparr> 0
       (RequestError ''connect ECONNREFUSED 127.0.0.1:443''
          \<lparr>getTime = 15, toISOString = ''2026-01-01T00:00:00.015Z''\<rparr>))
       = ''connect ECONNREFUSED 127.0.0.1:443''
   \<and> generateAlerts config \<lparr>getTime = 5000, toISOString = ''2026-01-01T00:00:05.000Z''\<rparr>
         [checkService config
            \<lparr>ServiceTarget.name = ''Traefik Dashboard'',
             url = ''https://traefik.propertyapp.duckdns.org/dashboard/'',
             expectedStatus = 200, timeout = 5000\<rparr> 0
            (Response \<lparr>statusCode = 404, peerCertificate = None\<rparr>
               \<lparr>getTime = 120, toISOString = ''2026-01-01T00:00:00.120Z''\<rparr>)]
         (checkContainers (ExecOutput ''''))
       = Inl (TypeError ''Cannot read properties of undefined (reading 'includes')'')"
proof -
  let ?target = "\<lparr>ServiceTarget.name = ''Traefik Dashboard'',
        url = ''https://traefik.propertyapp.duckdns.org/dashboard/'',
        expectedStatus = 200, timeout = 5000\<rparr>"
  let ?res = "\<lparr>statusCode = 404, peerCertificate = None\<rparr>"
  let ?at = "\<lparr>getTime = 120, toISOString = ''2026-01-01T00:00:00.120Z''\<rparr>"
  let ?now = "\<lparr>getTime = 5000, toISOString = ''2026-01-01T00:00:05.000Z''\<rparr>"
  let ?refused = "checkService config ?target 0
       (RequestError ''connect ECONNREFUSED 127.0.0.1:443''
          \<lparr>getTime = 15, toISOString = ''2026-01-01T00:00:00.015Z''\<rparr>)"
  let ?r = "checkService config ?target 0 (Response ?res ?at)"
  have h: "IncomingMessage.statusCode ?res = 404 \<and> expectedStatus ?target = 200" by simp
  have e: "error ?refused = Some ''connect ECONNREFUSED 127.0.0.1:443''
      \<and> ''connect ECONNREFUSED 127.0.0.1:443'' \<noteq> []"
    by (simp add: checkService_def)
  note all = status_alert_lost_on_empty_listing [of ?refused config ?now "''connect ECONNREFUSED 127.0.0.1:443''" 0 ?res ?target 0 ?at]
  from all e have pin: "errorOrStatusCode ?refused = ''connect ECONNREFUSED 127.0.0.1:443''"
    by blast
  from all h have four: "status ?r = UNHEALTHY
      \<and> (\<forall>failure. \<exists>out.
            generateAlerts config ?now [?r] (InspectionError failure) = Inr out
            \<and> filter (\<lambda>a. level a = HIGH \<and> Alert.service a = ''Traefik Dashboard''
                        \<and> message a = ''Traefik Dashboard is UNHEALTHY: 404'') out
                = [\<lparr>level = HIGH, service = ''Traefik Dashboard'',
                    message = ''Traefik Dashboard is UNHEALTHY: 404'',
                    timestamp = ''2026-01-01T00:00:05.000Z''\<rparr>])"
    by (simp add: Let_def)
  from all have lost: "generateAlerts config ?now [?r] (checkContainers (ExecOutput ''''))
       = Inl (TypeError ''Cannot read properties of undefined (reading 'includes')'')"
    by blast
  from four pin lost show ?thesis by blast
qed

text \<open>
  Claim C4. For a result carrying certificate information, the \<open>HIGH\<close> alerts with a
  certificate message that the loop body pushes are exactly one when the days to
  expiration are below the threshold, and none otherwise; the one names the day count,
  also a negative one. With one result and a failed inspection \<^verbatim>\<open>generateAlerts\<close>
  returns exactly these certificate alerts, and it returns a list holding the alert
  whenever the days are below the threshold and the inspection failed or every container
  status is a string. When \<^verbatim>\<open>docker ps\<close> prints nothing, \<^verbatim>\<open>generateAlerts\<close> throws
  and the alert is lost.
\<close>

theorem certificate_alert_lost_on_empty_listing:
  "(certificate result = Present cert
    \<longrightarrow> (let certificateAlert =
               (\<lambda>a. level a = HIGH
                    \<and> (\<exists>d. message a = ''SSL Certificate for '' @ ProbeResult.name result
                           @ '' expires in '' @ numberToString d @ '' days''));
             certificateAlerts = filter certificateAlert (resultAlerts cfg now result [])
         in certificateAlerts
              = (if daysToExpiration cert < certExpirationDays (thresholds cfg)
                 then [\<lparr>level = HIGH, service = ProbeResult.name result,
                        message = ''SSL Certificate for '' @ ProbeResult.name result
                          @ '' expires in '' @ numberToString (daysToExpiration cert) @ '' days'',
                        timestamp = toISOString now\<rparr>]
                 else [])
            \<and> (certExpirationDays (thresholds cfg) = 14 \<and> daysToExpiration cert = 5
                 \<longrightarrow> certificateAlerts
                       = [\<lparr>level = HIGH, service = ProbeResult.name result,
                           message = ''SSL Certificate for '' @ ProbeResult.name result
                             @ '' expires in 5 days'',
                           timestamp = toISOString now\<rparr>])
            \<and> (certExpirationDays (thresholds cfg) = 14 \<and> daysToExpiration cert = 30
                 \<longrightarrow> certificateAlerts = [])
            \<and> (certExpirationDays (thresholds cfg) = 14 \<and> daysToExpiration cert = - 3
                 \<longrightarrow> certificateAlerts
                       = [\<lparr>level = HIGH, service = ProbeResult.name result,
                           message = ''SSL Certificate for '' @ ProbeResult.name result
                             @ '' expires in -3 days'',
                           timestamp = toISOString now\<rparr>])
            \<and> (\<forall>failure. \<exists>out.
                  generateAlerts cfg now [result] (InspectionError failure) = Inr out
                  \<and> filter certificateAlert out = certificateAlerts)
            \<and> (\<forall>results inspection.
                  daysToExpiration cert < certExpirationDays (thresholds cfg)
                  \<and> result \<in> set results \<and> usable inspection
                  \<longrightarrow> (\<exists>out. generateAlerts cfg now results inspection = Inr out
                        \<and> \<lparr>level = HIGH, service = ProbeResult.name result,
                            message = ''SSL Certificate for '' @ ProbeResult.name result
                              @ '' expires in '' @ numberToString (daysToExpiration cert)
                              @ '' days'',
                            timestamp = toISOString now\<rparr> \<in> set out))))
   \<and> (\<forall>results.
         generateAlerts cfg now results (checkContainers (ExecOutput ''''))
           = Inl (TypeError ''Cannot read properties of undefined (reading 'includes')''))"
proof (rule conjI)
  show "\<forall>results.
         generateAlerts cfg now results (checkContainers (ExecOutput ''''))
           = Inl (TypeError ''Cannot read properties of undefined (reading 'includes')'')"
    using generateAlerts_empty_listing by blast
next
  show "certificate result = Present cert
    \<longrightarrow> (let certificateAlert =
               (\<lambda>a. level a = HIGH
                    \<and> (\<exists>d. message a = ''SSL Certificate for '' @ ProbeResult.name result
                           @ '' expires in '' @ numberToString d @ '' days''));
             certificateAlerts = filter certificateAlert (resultAlerts cfg now result [])
         in certificateAlerts
              = (if daysToExpiration cert < certExpirationDays (thresholds cfg)
                 then [\<lparr>level = HIGH, service = ProbeResult.name result,
                        message = ''SSL Certificate for '' @ ProbeResult.name result
                          @ '' expires in '' @ numberToString (daysToExpiration cert) @ '' days'',
                        timestamp = toISOString now\<rparr>]
                 else [])
            \<and> (certExpirationDays (thresholds cfg) = 14 \<and> daysToExpiration cert = 5
                 \<longrightarrow> certificateAlerts
                       = [\<lparr>level = HIGH, service = ProbeResult.name result,
                           message = ''SSL Certificate for '' @ ProbeResult.name result
                             @ '' expires in 5 days'',
                           timestamp = toISOString now\<rparr>])
            \<and> (certExpirationDays (thresholds cfg) = 14 \<and> daysToExpiration cert = 30
                 \<longrightarrow> certificateAlerts = [])
            \<and> (certExpirationDays (thresholds cfg) = 14 \<and> daysToExpiration cert = - 3
                 \<longrightarrow> certificateAlerts
                       = [\<lparr>level = HIGH, service = ProbeResult.name result,
                           message = ''SSL Certificate for '' @ ProbeResult.name result
                             @ '' expires in -3 days'',
                           timestamp = toISOString now\<rparr>])
            \<and> (\<forall>failure. \<exists>out.
                  generateAlerts cfg now [result] (InspectionError failure) = Inr out
                  \<and> filter certificateAlert out = certificateAlerts)
            \<and> (\<forall>results inspection.
                  daysToExpiration cert < certExpirationDays (thresholds cfg)
                  \<and> result \<in> set results \<and> usable inspection
                  \<longrightarrow> (\<exists>out. generateAlerts cfg now results inspection = Inr out
                        \<and> \<lparr>level = HIGH, service = ProbeResult.name result,
                            message = ''SSL Certificate for '' @ ProbeResult.name result
                              @ '' expires in '' @ numberToString (daysToExpiration cert)
                              @ '' days'',
                            timestamp = toISOString now\<rparr> \<in> set out)))"
  proof
    assume c: "certificate result = Present cert"
    define certificateAlert where "certificateAlert =
               (\<lambda>a::Alert. level a = HIGH
                    \<and> (\<exists>d. message a = ''SSL Certificate for '' @ ProbeResult.name result
                           @ '' expires in '' @ numberToString d @ '' days''))"
    define certificateAlerts where
      "certificateAlerts = filter certificateAlert (resultAlerts cfg now result [])"
    define alert where "alert = \<lparr>level = HIGH, service = ProbeResult.name result,
                        message = ''SSL Certificate for '' @ ProbeResult.name result
                          @ '' expires in '' @ numberToString (daysToExpiration cert) @ '' days'',
                        timestamp = toISOString now\<rparr>"
    have general: "certificateAlerts
             = (if daysToExpiration cert < certExpirationDays (thresholds cfg)
                then [alert] else [])"
      unfolding certificateAlerts_def certificateAlert_def alert_def
      using c by (rule certificate_alerts)
    have five: "certificateAlerts
                      = [\<lparr>level = HIGH, service = ProbeResult.name result,
                          message = ''SSL Certificate for '' @ ProbeResult.name result
                            @ '' expires in 5 days'',
                          timestamp = toISOString now\<rparr>]"
      if "certExpirationDays (thresholds cfg) = 14 \<and> daysToExpiration cert = 5"
      using that by (simp add: general alert_def numberToString_5)
    have thirty: "certificateAlerts = []"
      if "certExpirationDays (thresholds cfg) = 14 \<and> daysToExpiration cert = 30"
      using that by (simp add: general)
    have expired: "certificateAlerts
                      = [\<lparr>level = HIGH, service = ProbeResult.name result,
                          message = ''SSL Certificate for '' @ ProbeResult.name result
                            @ '' expires in -3 days'',
                          timestamp = toISOString now\<rparr>]"
      if "certExpirationDays (thresholds cfg) = 14 \<and> daysToExpiration cert = - 3"
      using that by (simp add: general alert_def numberToString_minus_3)
    have alone: "\<exists>out. generateAlerts cfg now [result] (InspectionError failure) = Inr out
                  \<and> filter certificateAlert out = certificateAlerts" for failure
      unfolding certificateAlerts_def using generateAlerts_alone [of cfg now result failure]
      by blast
    have engine: "\<exists>out. generateAlerts cfg now results inspection = Inr out \<and> alert \<in> set out"
      if "daysToExpiration cert < certExpirationDays (thresholds cfg)
                  \<and> result \<in> set results \<and> usable inspection"
      for results inspection
    proof -
      from that have low: "daysToExpiration cert < certExpirationDays (thresholds cfg)"
        and r: "result \<in> set results" and u: "usable inspection" by simp_all
      from general low have "filter certificateAlert (resultAlerts cfg now result []) = [alert]"
        unfolding certificateAlerts_def by simp
      then have "alert \<in> set (resultAlerts cfg now result [])" by (rule filter_member)
      with u r show ?thesis by (rule generateAlerts_emits)
    qed
    show "let certificateAlert =
               (\<lambda>a. level a = HIGH
                    \<and> (\<exists>d. message a = ''SSL Certificate for '' @ ProbeResult.name result
                           @ '' expires in '' @ numberToString d @ '' days''));
             certificateAlerts = filter certificateAlert (resultAlerts cfg now result [])
         in certificateAlerts
              = (if daysToExpiration cert < certExpirationDays (thresholds cfg)
                 then [\<lparr>level = HIGH, service = ProbeResult.name result,
                        message = ''SSL Certificate for '' @ ProbeResult.name result
                          @ '' expires in '' @ numberToString (daysToExpiration cert) @ '' days'',
                        timestamp = toISOString now\<rparr>]
                 else [])
            \<and> (certExpirationDays (thresholds cfg) = 14 \<and> daysToExpiration cert = 5
                 \<longrightarrow> certificateAlerts
                       = [\<lparr>level = HIGH, service = ProbeResult.name result,
                           message = ''SSL Certificate for '' @ ProbeResult.name result
                             @ '' expires in 5 days'',
                           timestamp = toISOString now\<rparr>])
            \<and> (certExpirationDays (thresholds cfg) = 14 \<and> daysToExpiration cert = 30
                 \<longrightarrow> certificateAlerts = [])
            \<and> (certExpirationDays (thresholds cfg) = 14 \<and> daysToExpiration cert = - 3
                 \<longrightarrow> certificateAlerts
                       = [\<lparr>level = HIGH, service = ProbeResult.name result,
                           message = ''SSL Certificate for '' @ ProbeResult.name result
                             @ '' expires in -3 days'',
                           timestamp = toISOString now\<rparr>])
            \<and> (\<forall>failure. \<exists>out.
                  generateAlerts cfg now [result] (InspectionError failure) = Inr out
                  \<and> filter certificateAlert out = certificateAlerts)
            \<and> (\<forall>results inspection.
                  daysToExpiration cert < certExpirationDays (thresholds cfg)
                  \<and> result \<in> set results \<and> usable inspection
                  \<longrightarrow> (\<exists>out. generateAlerts cfg now results inspection = Inr out
                        \<and> \<lparr>level = HIGH, service = ProbeResult.name result,
                            message = ''SSL Certificate for '' @ ProbeResult.name result
                              @ '' expires in '' @ numberToString (daysToExpiration cert)
                              @ '' days'',
                            timestamp = toISOString now\<rparr> \<in> set out))"
      unfolding Let_def
      using general five thirty expired alone engine
      unfolding certificateAlerts_def certificateAlert_def alert_def
      by (intro conjI allI impI) blast+
  qed
qed

text \<open>
  The claim at a result of the NASA App whose certificate expires in 5 days.
\<close>

theorem certificate_alert_lost_on_empty_listing_witness:
  "(\<exists>out.
      generateAlerts config \<lparr>getTime = 5000, toISOString = ''2026-01-01T00:00:05.000Z''\<rparr>
        [\<lparr>name = ''NASA App'', url = ''https://majortomtogroundcontrol.duckdns.org'',
          status = HEALTHY, statusCode = Some 200, responseTime = Some 120,
          certificate = Present \<lparr>issuer = ''R3'', expirationDate = ''2026-01-06T00:00:00.000Z'',
                                  daysToExpiration = 5\<rparr>,
          error = None, timestamp = Some ''2026-01-01T00:00:00.120Z''\<rparr>]
        (InspectionError ''docker: not found'') = Inr out
      \<and> filter (\<lambda>a. level a = HIGH
                  \<and> (\<exists>d. message a = ''SSL Certificate for NASA App expires in ''
                         @ numberToString d @ '' days'')) out
        = [\<lparr>level = HIGH, service = ''NASA App'',
            message = ''SSL Certificate for NASA App expires in 5 days'',
            timestamp = ''2026-01-01T00:00:05.000Z''\<rparr>])
   \<and> generateAlerts config \<lparr>getTime = 5000, toISOString = ''2026-01-01T00:00:05.000Z''\<rparr>
        [\<lparr>name = ''NASA App'', url = ''https://majortomtogroundcontrol.duckdns.org'',
          status = HEALTHY, statusCode = Some 200, responseTime = Some 120,
          certificate = Present \<lparr>issuer = ''R3'', expirationDate = ''2026-01-06T00:00:00.000Z'',
                                  daysToExpiration = 5\<rparr>,
          error = None, timestamp = Some ''2026-01-01T00:00:00.120Z''\<rparr>]
        (checkContainers (ExecOutput ''''))
      = Inl (TypeError ''Cannot read properties of undefined (reading 'includes')'')"
proof -
  let ?cert = "\<lparr>issuer = ''R3'', expirationDate = ''2026-01-06T00:00:00.000Z'', daysToExpiration = 5\<rparr>"
  let ?result = "\<lparr>name = ''NASA App'', url = ''https://majortomtogroundcontrol.duckdns.org'',
         status = HEALTHY, statusCode = Some 200, responseTime = Some 120,
         certificate = Present ?cert,
         error = None, timestamp = Some ''2026-01-01T00:00:00.120Z''\<rparr>"
  let ?now = "\<lparr>getTime = 5000, toISOString = ''2026-01-01T00:00:05.000Z''\<rparr>"
  let ?P = "\<lambda>a. level a = HIGH
                  \<and> (\<exists>d. message a = ''SSL Certificate for NASA App expires in ''
                         @ numberToString d @ '' days'')"
  let ?alert = "\<lparr>level = HIGH, service = ''NASA App'',
            message = ''SSL Certificate for NASA App expires in 5 days'',
            timestamp = ''2026-01-01T00:00:05.000Z''\<rparr>"
  have h: "certificate ?result = Present ?cert" by simp
  have t: "certExpirationDays (thresholds config) = 14 \<and> daysToExpiration ?cert = 5"
    by (simp add: thresholds_config)
  note all = certificate_alert_lost_on_empty_listing [of ?result ?cert config ?now, unfolded Let_def]
  from all have lost: "generateAlerts config ?now [?result] (checkContainers (ExecOutput ''''))
      = Inl (TypeError ''Cannot read properties of undefined (reading 'includes')'')"
    by blast
  note body = all [THEN conjunct1, rule_format, OF h]
  note five = body [THEN conjunct2, THEN conjunct1, rule_format, OF t]
  note alone = body [THEN conjunct2, THEN conjunct2, THEN conjunct2, THEN conjunct2,
      THEN conjunct1, rule_format, of "''docker: not found''"]
  from five have five': "filter ?P (resultAlerts config ?now ?result []) = [?alert]" by simp
  from alone obtain out
    where o: "generateAlerts config ?now [?result] (InspectionError ''docker: not found'') = Inr out"
      and f: "filter ?P out = filter ?P (resultAlerts config ?now ?result [])"
    by simp blast
  from f five' have "filter ?P out = [?alert]" by (rule trans)
  with o have "\<exists>out. generateAlerts config ?now [?result] (InspectionError ''docker: not found'') = Inr out
      \<and> filter ?P out = [?alert]" by blast
  with lost show ?thesis by (rule conjI [rotated])
qed

end
